theory Spec2Isabelle
  imports Complex_Main
begin

section \<open>Conventions of the embedding\<close>

text \<open>
  The repository holds three variants of one polling loop: \<open>HFT_1.py\<close> (stop distance
  from twice the standard deviation, floored by the broker's minimum), \<open>HFT_2.py\<close>
  (stop distance from the variance, floored by 30) and
  \<open>remove30_use_RawCalculatedVar.py\<close> (stop distance the raw variance). Definitions
  of the first carry the suffix \<open>_1\<close>, of the second \<open>_2\<close>, of the third \<open>_3\<close>.

  Prices, variances and slopes are Python floats in the source. They are modelled as
  \<^typ>\<open>real\<close>: the arithmetic of the source is read as exact arithmetic, and the
  rounding of IEEE doubles is not part of the model. Datetimes are integers counting
  microseconds. Calls of \<open>logging\<close> and \<open>time.sleep\<close> have no effect on the modelled
  state and are left out.
\<close>

section \<open>Library functions used by the source\<close>

text \<open>
  \<open>collections.deque(maxlen=n).append(x)\<close>: the element is added on the right, and when
  the deque is then longer than \<open>maxlen\<close> the leftmost element is removed.
\<close>

definition deque_append :: "nat \<Rightarrow> 'a list \<Rightarrow> 'a \<Rightarrow> 'a list" where
  "deque_append maxlen dq x =
     (let dq' = dq @ [x] in if length dq' > maxlen then tl dq' else dq')"

text \<open>\<open>numpy.mean\<close>, \<open>numpy.var\<close> (the mean of the squared deviations from the mean,
  \<open>ddof = 0\<close>) and \<open>numpy.std\<close> (its square root). The source calls them on a full
  buffer only; on an empty list numpy answers \<open>nan\<close>, where the division by zero of the
  model answers 0.\<close>

definition np_mean :: "real list \<Rightarrow> real" where
  "np_mean a = sum_list a / real (length a)"

definition np_var :: "real list \<Rightarrow> real" where
  "np_var a = np_mean (map (\<lambda>x. (x - np_mean a)\<^sup>2) a)"

definition np_std :: "real list \<Rightarrow> real" where
  "np_std a = sqrt (np_var a)"

text \<open>
  The first component of \<open>scipy.stats.linregress(x, y)\<close>: with \<open>ssxm\<close> the biased
  variance of \<open>x\<close> and \<open>ssxym\<close> the biased covariance of \<open>x\<close> and \<open>y\<close>, the slope is
  \<open>ssxym / ssxm\<close>. The source always passes \<open>range(TICK_BUFFER_SIZE)\<close> and a list of
  that same length, so the library's checks of its arguments never fail there.
\<close>

definition linregress_slope :: "real list \<Rightarrow> real list \<Rightarrow> real" where
  "linregress_slope x y =
     (let xmean = np_mean x;
          ymean = np_mean y;
          ssxm = np_mean (map (\<lambda>a. (a - xmean) * (a - xmean)) x);
          ssxym = np_mean (map (\<lambda>(a, b). (a - xmean) * (b - ymean)) (zip x y))
      in ssxym / ssxm)"

definition py_range :: "nat \<Rightarrow> real list" where
  "py_range n = map real [0..<n]"

text \<open>Python's \<open>max(a, b)\<close> returns \<open>b\<close> when \<open>b > a\<close> and \<open>a\<close> otherwise.\<close>

definition py_max :: "real \<Rightarrow> real \<Rightarrow> real" where
  "py_max a b = (if b > a then b else a)"

section \<open>Data shared by the variants\<close>

text \<open>
  Formatted strings keep the number they render: \<open>Fixed k x\<close> stands for
  \<open>f"{x:.kf}"\<close>, \<open>Repr x\<close> for \<open>f"{x}"\<close>, \<open>Strftime fmt t\<close> for \<open>t.strftime(fmt)\<close> and
  \<open>StrftimeMs t\<close> for \<open>t.strftime("%H:%M:%S.%f")[:-3]\<close>. A CSV cell is a string, an
  integer or a float handed to \<open>csv.writer\<close>.
\<close>

datatype piece = Lit string | Fixed nat real | Repr real | Strftime string int | StrftimeMs int

type_synonym fstring = "piece list"

datatype cell = S fstring | I int | R real

type_synonym row = "cell list"

text \<open>The files on disk: a file that exists holds its rows in order.\<close>

type_synonym files = "string \<Rightarrow> row list option"

text \<open>\<open>os.path.exists\<close>; \<open>open(f, 'w')\<close> followed by one \<open>writerow\<close> (the file is
  created or truncated); \<open>open(f, 'a')\<close> followed by one \<open>writerow\<close> (the file is created
  when absent, and the row goes after what it holds).\<close>

definition path_exists :: "files \<Rightarrow> string \<Rightarrow> bool" where
  "path_exists fs f = (fs f \<noteq> None)"

definition open_w_writerow :: "files \<Rightarrow> string \<Rightarrow> row \<Rightarrow> files" where
  "open_w_writerow fs f r = fs(f \<mapsto> [r])"

definition open_a_writerow :: "files \<Rightarrow> string \<Rightarrow> row \<Rightarrow> files" where
  "open_a_writerow fs f r = fs(f \<mapsto> (case fs f of None \<Rightarrow> [] | Some rows \<Rightarrow> rows) @ [r])"

definition strs :: "string list \<Rightarrow> row" where
  "strs names = map (\<lambda>n. S [Lit n]) names"

record tick =
  tick_time :: int
  tick_last :: real
  tick_bid :: real
  tick_ask :: real

definition fromtimestamp :: "int \<Rightarrow> int" where
  "fromtimestamp secs = 1000000 * secs"

datatype mt5_action = TRADE_ACTION_DEAL
datatype mt5_order_type = ORDER_TYPE_BUY | ORDER_TYPE_SELL
datatype mt5_type_time = ORDER_TIME_GTC
datatype mt5_type_filling = ORDER_FILLING_FOK | ORDER_FILLING_IOC

record request =
  req_action :: mt5_action
  req_symbol :: string
  req_volume :: real
  req_type :: mt5_order_type
  req_price :: real
  req_sl :: real
  req_tp :: real
  req_deviation :: int
  req_type_time :: mt5_type_time
  req_type_filling :: mt5_type_filling
  req_comment :: fstring

text \<open>What \<open>mt5.order_send\<close> returns when it returns an object; \<open>res_profit\<close> is
  \<open>None\<close> when the object has no attribute \<open>profit\<close>.\<close>

record order_result =
  res_retcode :: int
  res_order :: int
  res_deal :: int
  res_profit :: "real option"
  res_comment :: string

definition TRADE_RETCODE_DONE :: int where
  "TRADE_RETCODE_DONE = 10009"

text \<open>
  The world around one iteration of the loop: what \<open>mt5.copy_ticks_from\<close> answers for a
  symbol, a start time and a count (\<open>None\<close> on an error), what \<open>mt5.order_send\<close>
  answers for a request, and what the \<open>k\<close>-th call of \<open>datetime.datetime.now()\<close> whose
  value is written to a file returns.
\<close>

record env =
  copy_ticks_from :: "string \<Rightarrow> int \<Rightarrow> nat \<Rightarrow> tick list option"
  order_send :: "request \<Rightarrow> order_result option"
  now :: "nat \<Rightarrow> int"

datatype py_error = AttributeError

text \<open>The truth value Python gives \<open>order_signal\<close>, which is \<open>None\<close> or a string.\<close>

definition truthy :: "string option \<Rightarrow> bool" where
  "truthy v = (case v of None \<Rightarrow> False | Some s \<Rightarrow> s \<noteq> [])"

definition SLOPE_THRESHOLD :: real where
  "SLOPE_THRESHOLD = 0.0001"

definition LOT_SIZE :: real where
  "LOT_SIZE = 0.01"

definition TICKS_PER_CALL :: nat where
  "TICKS_PER_CALL = 200"

definition LOOP_ITERATIONS :: nat where
  "LOOP_ITERATIONS = 100"

definition order_header :: row where
  "order_header = strs [''Ticket'', ''Order'', ''Time'', ''Symbol'', ''Type'', ''Volume'',
     ''Price'', ''Profit'', ''Comment'']"

text \<open>The price of a tick: the last trade, or the middle of bid and ask when the last
  trade is not positive.\<close>

definition tick_price :: "tick \<Rightarrow> real" where
  "tick_price t = (let price = tick_last t in
     if price \<le> 0 then (tick_bid t + tick_ask t) / 2 else price)"

definition advance_time :: "int \<Rightarrow> tick \<Rightarrow> int" where
  "advance_time latest t = (let tick_dt = fromtimestamp (tick_time t) in
     if tick_dt > latest then tick_dt + 1 else latest)"

section \<open>\<open>HFT_1.py\<close>: twice the standard deviation, floored by the broker's minimum\<close>

definition SYMBOL_1 :: string where
  "SYMBOL_1 = ''BTCUSD''"

definition TICK_BUFFER_SIZE_1 :: nat where
  "TICK_BUFFER_SIZE_1 = 30"

definition STDEV_MULTIPLIER :: real where
  "STDEV_MULTIPLIER = 2.0"

definition MIN_STOP_DEFAULT :: real where
  "MIN_STOP_DEFAULT = 0.0005"

definition TICK_CSV_FILE_1 :: string where
  "TICK_CSV_FILE_1 = ''tick_data.csv''"

definition ORDER_CSV_FILE_1 :: string where
  "ORDER_CSV_FILE_1 = ''order_data.csv''"

text \<open>The globals of the module, the files on disk, and \<open>sent\<close>, the requests handed to
  \<open>mt5.order_send\<close> so far, oldest first.\<close>

record state_1 =
  tick_buffer_1 :: "real list"
  previous_slope_1 :: real
  latest_tick_time_1 :: int
  broker_min_stop_price :: real
  files_1 :: files
  sent_1 :: "request list"

definition prepare_tick_csv_1 :: "files \<Rightarrow> files" where
  "prepare_tick_csv_1 fs = open_w_writerow fs TICK_CSV_FILE_1
     (strs [''date'', ''time'', ''symbol'', ''price'', ''variance'', ''slope'', ''trend''])"

text \<open>\<open>variance\<close> and \<open>slope\<close> are floats or strings; a float is rendered with
  \<open>f"{v}"\<close>, a string is written as it is.\<close>

definition float_or_str :: "real + fstring \<Rightarrow> cell" where
  "float_or_str v = (case v of Inl x \<Rightarrow> S [Repr x] | Inr s \<Rightarrow> S s)"

definition append_tick_csv_row_1 ::
  "files \<Rightarrow> fstring \<Rightarrow> fstring \<Rightarrow> string \<Rightarrow> real \<Rightarrow> real + fstring \<Rightarrow> real + fstring \<Rightarrow> string \<Rightarrow> files" where
  "append_tick_csv_row_1 fs date_str time_str symbol price variance slope trend =
     open_a_writerow fs TICK_CSV_FILE_1
       [S date_str, S time_str, S [Lit symbol], S [Fixed 5 price],
        float_or_str variance, float_or_str slope, S [Lit trend]]"

definition prepare_order_csv_1 :: "files \<Rightarrow> files" where
  "prepare_order_csv_1 fs = open_w_writerow fs ORDER_CSV_FILE_1 order_header"

definition append_order_csv_row_1 ::
  "files \<Rightarrow> int \<Rightarrow> nat \<Rightarrow> fstring \<Rightarrow> string \<Rightarrow> string \<Rightarrow> real \<Rightarrow> real \<Rightarrow> real \<Rightarrow> fstring \<Rightarrow> files" where
  "append_order_csv_row_1 fs ticket order_num time_str symbol order_type volume price profit comment =
     open_a_writerow fs ORDER_CSV_FILE_1
       [I ticket, I (int order_num), S time_str, S [Lit symbol], S [Lit order_type], R volume,
        S [Fixed 5 price], S [Fixed 2 profit], S comment]"

text \<open>The broker's minimum stop distance, computed once when the module is loaded.\<close>

record symbol_info =
  trade_stops_level :: int
  point :: real

definition init_broker_min_stop_price :: "symbol_info \<Rightarrow> real" where
  "init_broker_min_stop_price info =
     (let broker_min_stop_points = trade_stops_level info;
          price = real_of_int broker_min_stop_points * point info
      in if price \<le> 0 then MIN_STOP_DEFAULT else price)"

text \<open>
  The module level of \<open>HFT_1.py\<close>, from the files on disk, the start time, whether
  \<open>mt5.initialize\<close> and \<open>mt5.symbol_select\<close> succeed and what \<open>mt5.symbol_info\<close> answers.
  \<open>None\<close> is \<open>quit()\<close>; the two CSV files were already prepared by then.
\<close>

definition startup_1 :: "files \<Rightarrow> int \<Rightarrow> bool \<Rightarrow> bool \<Rightarrow> symbol_info option \<Rightarrow> state_1 option" where
  "startup_1 fs start_time initialized selected info =
     (let fs' = prepare_order_csv_1 (prepare_tick_csv_1 fs)
      in if \<not> initialized then None
         else if \<not> selected then None
         else case info of
                None \<Rightarrow> None
              | Some si \<Rightarrow>
                  Some \<lparr>tick_buffer_1 = [], previous_slope_1 = 0.0,
                        latest_tick_time_1 = start_time,
                        broker_min_stop_price = init_broker_min_stop_price si,
                        files_1 = fs', sent_1 = []\<rparr>)"

definition fetch_new_ticks :: "env \<Rightarrow> string \<Rightarrow> int \<Rightarrow> tick list option" where
  "fetch_new_ticks e symbol from_time = copy_ticks_from e symbol from_time TICKS_PER_CALL"

text \<open>The dictionary that \<open>place_market_order\<close> builds, and the call itself.\<close>

definition request_1 :: "string \<Rightarrow> real \<Rightarrow> string \<Rightarrow> real \<Rightarrow> real \<Rightarrow> request" where
  "request_1 symbol volume order_type price stop_dist =
     (if order_type = ''BUY'' then
        \<lparr>req_action = TRADE_ACTION_DEAL, req_symbol = symbol, req_volume = volume,
         req_type = ORDER_TYPE_BUY, req_price = price,
         req_sl = price - stop_dist, req_tp = price + stop_dist,
         req_deviation = 20, req_type_time = ORDER_TIME_GTC,
         req_type_filling = ORDER_FILLING_IOC,
         req_comment = [Lit ''Slope-based Buy (stop='', Fixed 5 stop_dist, Lit '')'']\<rparr>
      else
        \<lparr>req_action = TRADE_ACTION_DEAL, req_symbol = symbol, req_volume = volume,
         req_type = ORDER_TYPE_SELL, req_price = price,
         req_sl = price + stop_dist, req_tp = price - stop_dist,
         req_deviation = 20, req_type_time = ORDER_TIME_GTC,
         req_type_filling = ORDER_FILLING_IOC,
         req_comment = [Lit ''Slope-based Sell (stop='', Fixed 5 stop_dist, Lit '')'']\<rparr>)"

definition place_market_order_1 ::
  "env \<Rightarrow> string \<Rightarrow> real \<Rightarrow> string \<Rightarrow> real \<Rightarrow> real \<Rightarrow> order_result option" where
  "place_market_order_1 e symbol volume order_type price stop_dist =
     order_send e (request_1 symbol volume order_type price stop_dist)"

text \<open>The trend written with each tick (lines 258 to 263 of \<open>main\<close>).\<close>

definition trend_str_1 :: "real \<Rightarrow> string" where
  "trend_str_1 slope_val =
     (if slope_val > SLOPE_THRESHOLD then ''Bullish''
      else if slope_val < - SLOPE_THRESHOLD then ''Bearish''
      else ''Neutral'')"

text \<open>The body of \<open>for tick in ticks\<close>.\<close>

definition process_tick_1 :: "state_1 \<Rightarrow> tick \<Rightarrow> state_1" where
  "process_tick_1 s t =
     (let tick_dt = fromtimestamp (tick_time t);
          latest = advance_time (latest_tick_time_1 s) t;
          price = tick_price t;
          buf = deque_append TICK_BUFFER_SIZE_1 (tick_buffer_1 s) price;
          (variance_str, slope_str, trend_str) =
            (if length buf < TICK_BUFFER_SIZE_1 then ([Lit ''N/A''], [Lit ''N/A''], ''N/A'')
             else
               (let prices_list = buf;
                    variance_val = np_var prices_list;
                    slope_val = linregress_slope (py_range TICK_BUFFER_SIZE_1) prices_list
                in ([Fixed 6 variance_val], [Fixed 6 slope_val], trend_str_1 slope_val)));
          date_str = [Strftime ''%Y-%m-%d'' tick_dt];
          time_str = [StrftimeMs tick_dt]
      in s\<lparr>tick_buffer_1 := buf, latest_tick_time_1 := latest,
            files_1 := append_tick_csv_row_1 (files_1 s) date_str time_str SYMBOL_1 price
                         (Inr variance_str) (Inr slope_str) trend_str\<rparr>)"

text \<open>Step 1 of an iteration: fetch, and process every tick when there are some.\<close>

definition update_1 :: "env \<Rightarrow> state_1 \<Rightarrow> state_1" where
  "update_1 e s =
     (case fetch_new_ticks e SYMBOL_1 (latest_tick_time_1 s) of
        None \<Rightarrow> s
      | Some ticks \<Rightarrow> if length ticks > 0 then foldl process_tick_1 s ticks else s)"

text \<open>The stop distance and the signal of step 2 (lines 278 to 303 of \<open>main\<close>).\<close>

definition effective_stop_1 :: "state_1 \<Rightarrow> real" where
  "effective_stop_1 s =
     (let prices_list = tick_buffer_1 s;
          std_val = np_std prices_list;
          default_stop_dist = STDEV_MULTIPLIER * std_val
      in py_max default_stop_dist (broker_min_stop_price s))"

definition order_signal_1 :: "real \<Rightarrow> string option" where
  "order_signal_1 slope_val =
     (if slope_val > SLOPE_THRESHOLD then Some ''BUY''
      else if slope_val < - SLOPE_THRESHOLD then Some ''SELL''
      else None)"

text \<open>
  Step 2 when the buffer is full. A successful result whose object has no attribute
  \<open>profit\<close> makes \<open>result.profit\<close> raise \<open>AttributeError\<close>, after the order was sent.
\<close>

definition order_attempt_1 :: "env \<Rightarrow> nat \<Rightarrow> state_1 \<Rightarrow> state_1 \<times> py_error option" where
  "order_attempt_1 e order_num s =
     (let prices_list = tick_buffer_1 s;
          effective_stop = effective_stop_1 s;
          slope_val = linregress_slope (py_range TICK_BUFFER_SIZE_1) prices_list;
          current_price = last prices_list;
          order_signal = order_signal_1 slope_val
      in if truthy order_signal then
           (let sig = the order_signal;
                req = request_1 SYMBOL_1 LOT_SIZE sig current_price effective_stop;
                result = place_market_order_1 e SYMBOL_1 LOT_SIZE sig current_price effective_stop;
                s' = s\<lparr>sent_1 := sent_1 s @ [req]\<rparr>;
                time_now = [Strftime ''%Y-%m-%d %H:%M:%S'' (now e 0)]
            in case result of
                 None \<Rightarrow> (s', None)
               | Some r \<Rightarrow>
                   if res_retcode r = TRADE_RETCODE_DONE then
                     (case res_profit r of
                        None \<Rightarrow> (s', Some AttributeError)
                      | Some profit \<Rightarrow>
                          (s'\<lparr>files_1 := append_order_csv_row_1 (files_1 s') (res_order r) order_num
                                time_now SYMBOL_1 sig LOT_SIZE current_price profit
                                [Lit ''Slope='', Fixed 4 slope_val, Lit '', stop='',
                                 Fixed 4 effective_stop]\<rparr>, None))
                   else (s', None))
         else (s, None))"

text \<open>One pass of the body of \<open>for order_num in range(1, LOOP_ITERATIONS + 1)\<close>.\<close>

definition iteration_1 :: "env \<Rightarrow> nat \<Rightarrow> state_1 \<Rightarrow> state_1 \<times> py_error option" where
  "iteration_1 e order_num s =
     (let s1 = update_1 e s
      in if length (tick_buffer_1 s1) = TICK_BUFFER_SIZE_1 then order_attempt_1 e order_num s1
         else (s1, None))"

text \<open>The loop of \<open>main\<close>: the iterations in order, each in its own world, stopping at the
  first exception.\<close>

fun main_loop_1 :: "(nat \<Rightarrow> env) \<Rightarrow> nat list \<Rightarrow> state_1 \<Rightarrow> state_1 \<times> py_error option" where
  "main_loop_1 E [] s = (s, None)"
| "main_loop_1 E (order_num # rest) s =
     (case iteration_1 (E order_num) order_num s of
        (s', Some err) \<Rightarrow> (s', Some err)
      | (s', None) \<Rightarrow> main_loop_1 E rest s')"

definition main_1 :: "(nat \<Rightarrow> env) \<Rightarrow> state_1 \<Rightarrow> state_1 \<times> py_error option" where
  "main_1 E s = main_loop_1 E [1..<LOOP_ITERATIONS + 1] s"

section \<open>\<open>HFT_2.py\<close>: the variance, floored by 30\<close>

definition SYMBOL_2 :: string where
  "SYMBOL_2 = ''BTCUSD''"

definition TICK_BUFFER_SIZE_2 :: nat where
  "TICK_BUFFER_SIZE_2 = 30"

definition VARIANCE_FLOOR :: real where
  "VARIANCE_FLOOR = 30.0"

definition RAW_TICK_CSV :: string where
  "RAW_TICK_CSV = ''raw_tick_data.csv''"

definition TICK_CSV :: string where
  "TICK_CSV = ''tick_data.csv''"

definition ORDER_CSV :: string where
  "ORDER_CSV = ''order_data.csv''"

definition raw_tick_header :: row where
  "raw_tick_header = strs [''date'', ''time'', ''symbol'', ''price'']"

definition tick_header :: row where
  "tick_header = strs [''date'', ''time'', ''symbol'', ''prices'', ''variance'', ''slope'', ''trend'']"

record state_2 =
  tick_buffer_2 :: "real list"
  previous_slope_2 :: real
  latest_tick_time_2 :: int
  files_2 :: files
  sent_2 :: "request list"

definition prepare_raw_tick_csv_2 :: "files \<Rightarrow> files" where
  "prepare_raw_tick_csv_2 fs =
     (if \<not> path_exists fs RAW_TICK_CSV then open_w_writerow fs RAW_TICK_CSV raw_tick_header
      else fs)"

definition append_raw_tick_csv_row_2 :: "files \<Rightarrow> fstring \<Rightarrow> fstring \<Rightarrow> string \<Rightarrow> real \<Rightarrow> files" where
  "append_raw_tick_csv_row_2 fs date_str time_str symbol price =
     open_a_writerow fs RAW_TICK_CSV [S date_str, S time_str, S [Lit symbol], S [Fixed 5 price]]"

definition prepare_tick_csv_2 :: "files \<Rightarrow> files" where
  "prepare_tick_csv_2 fs =
     (if \<not> path_exists fs TICK_CSV then open_w_writerow fs TICK_CSV tick_header else fs)"

definition append_tick_csv_row_2 ::
  "files \<Rightarrow> fstring \<Rightarrow> fstring \<Rightarrow> string \<Rightarrow> fstring \<Rightarrow> fstring \<Rightarrow> fstring \<Rightarrow> string \<Rightarrow> files" where
  "append_tick_csv_row_2 fs date_str time_str symbol prices_str variance slope trend =
     open_a_writerow fs TICK_CSV
       [S date_str, S time_str, S [Lit symbol], S prices_str, S variance, S slope, S [Lit trend]]"

definition prepare_order_csv_2 :: "files \<Rightarrow> files" where
  "prepare_order_csv_2 fs =
     (if \<not> path_exists fs ORDER_CSV then open_w_writerow fs ORDER_CSV order_header else fs)"

definition append_order_csv_row_2 ::
  "files \<Rightarrow> int \<Rightarrow> nat \<Rightarrow> fstring \<Rightarrow> string \<Rightarrow> string \<Rightarrow> real \<Rightarrow> real \<Rightarrow> real \<Rightarrow> fstring \<Rightarrow> files" where
  "append_order_csv_row_2 fs ticket order_num time_str symbol order_type volume price profit comment =
     open_a_writerow fs ORDER_CSV
       [I ticket, I (int order_num), S time_str, S [Lit symbol], S [Lit order_type], R volume,
        S [Fixed 5 price], S [Fixed 2 profit], S comment]"

text \<open>The three calls at the top of the module, in their order.\<close>

definition initialize_csvs_2 :: "files \<Rightarrow> files" where
  "initialize_csvs_2 fs = prepare_order_csv_2 (prepare_tick_csv_2 (prepare_raw_tick_csv_2 fs))"

text \<open>\<open>";".join(f"{p:.5f}" for p in prices_list)\<close>.\<close>

fun join_fixed5 :: "real list \<Rightarrow> fstring" where
  "join_fixed5 [] = []"
| "join_fixed5 [p] = [Fixed 5 p]"
| "join_fixed5 (p # q # ps) = Fixed 5 p # Lit '';'' # join_fixed5 (q # ps)"

definition effective_variance_2 :: "real \<Rightarrow> real" where
  "effective_variance_2 variance = (if variance \<ge> VARIANCE_FLOOR then variance else VARIANCE_FLOOR)"

definition request_2 :: "string \<Rightarrow> real \<Rightarrow> string \<Rightarrow> real \<Rightarrow> real \<Rightarrow> request" where
  "request_2 symbol volume order_type price variance =
     (let effective_variance = effective_variance_2 variance
      in if order_type = ''BUY'' then
        \<lparr>req_action = TRADE_ACTION_DEAL, req_symbol = symbol, req_volume = volume,
         req_type = ORDER_TYPE_BUY, req_price = price,
         req_sl = price - effective_variance, req_tp = price + effective_variance,
         req_deviation = 20, req_type_time = ORDER_TIME_GTC,
         req_type_filling = ORDER_FILLING_IOC,
         req_comment = [Lit ''Slope-based Buy (var='', Fixed 2 effective_variance, Lit '')'']\<rparr>
      else
        \<lparr>req_action = TRADE_ACTION_DEAL, req_symbol = symbol, req_volume = volume,
         req_type = ORDER_TYPE_SELL, req_price = price,
         req_sl = price + effective_variance, req_tp = price - effective_variance,
         req_deviation = 20, req_type_time = ORDER_TIME_GTC,
         req_type_filling = ORDER_FILLING_IOC,
         req_comment = [Lit ''Slope-based Sell (var='', Fixed 2 effective_variance, Lit '')'']\<rparr>)"

definition place_market_order_2 ::
  "env \<Rightarrow> string \<Rightarrow> real \<Rightarrow> string \<Rightarrow> real \<Rightarrow> real \<Rightarrow> order_result option" where
  "place_market_order_2 e symbol volume order_type price variance =
     order_send e (request_2 symbol volume order_type price variance)"

definition process_tick_2 :: "state_2 \<Rightarrow> tick \<Rightarrow> state_2" where
  "process_tick_2 s t =
     (let tick_dt = fromtimestamp (tick_time t);
          latest = advance_time (latest_tick_time_2 s) t;
          price = tick_price t;
          date_str = [Strftime ''%Y-%m-%d'' tick_dt];
          time_str = [StrftimeMs tick_dt]
      in s\<lparr>latest_tick_time_2 := latest,
            files_2 := append_raw_tick_csv_row_2 (files_2 s) date_str time_str SYMBOL_2 price,
            tick_buffer_2 := deque_append TICK_BUFFER_SIZE_2 (tick_buffer_2 s) price\<rparr>)"

definition update_2 :: "env \<Rightarrow> state_2 \<Rightarrow> state_2" where
  "update_2 e s =
     (case fetch_new_ticks e SYMBOL_2 (latest_tick_time_2 s) of
        None \<Rightarrow> s
      | Some ticks \<Rightarrow> if length ticks > 0 then foldl process_tick_2 s ticks else s)"

text \<open>The trend and the signal of step 2 (lines 207 to 234 of \<open>main\<close>).\<close>

definition trend_decision_2 :: "real \<Rightarrow> string" where
  "trend_decision_2 slope_val =
     (if slope_val > SLOPE_THRESHOLD then ''Bullish''
      else if slope_val < - SLOPE_THRESHOLD then ''Bearish''
      else ''Neutral'')"

definition order_signal_2 :: "string \<Rightarrow> string option" where
  "order_signal_2 trend_decision =
     (if trend_decision = ''Bullish'' then Some ''BUY''
      else if trend_decision = ''Bearish'' then Some ''SELL''
      else None)"

text \<open>Step 2 when the buffer is full; \<open>getattr(result, "profit", 0.0)\<close> reads \<open>0.0\<close> when
  the attribute is missing.\<close>

definition order_attempt_2 :: "env \<Rightarrow> nat \<Rightarrow> state_2 \<Rightarrow> state_2" where
  "order_attempt_2 e order_num s =
     (let prices_list = tick_buffer_2 s;
          variance_val = np_var prices_list;
          slope_val = linregress_slope (py_range TICK_BUFFER_SIZE_2) prices_list;
          trend_decision = trend_decision_2 slope_val;
          prices_str = join_fixed5 prices_list;
          agg_time = now e 0;
          date_str = [Strftime ''%Y-%m-%d'' agg_time];
          time_str = [Strftime ''%H:%M:%S'' agg_time];
          s1 = s\<lparr>files_2 := append_tick_csv_row_2 (files_2 s) date_str time_str SYMBOL_2 prices_str
                                [Fixed 6 variance_val] [Fixed 6 slope_val] trend_decision\<rparr>;
          order_signal = order_signal_2 trend_decision;
          s2 = s1\<lparr>previous_slope_2 := slope_val\<rparr>
      in if truthy order_signal then
           (let sig = the order_signal;
                current_price = last prices_list;
                req = request_2 SYMBOL_2 LOT_SIZE sig current_price variance_val;
                result = place_market_order_2 e SYMBOL_2 LOT_SIZE sig current_price variance_val;
                s3 = s2\<lparr>sent_2 := sent_2 s2 @ [req]\<rparr>;
                time_now = [Strftime ''%Y-%m-%d %H:%M:%S'' (now e 1)]
            in case result of
                 None \<Rightarrow> s3
               | Some r \<Rightarrow>
                   if res_retcode r = TRADE_RETCODE_DONE then
                     (let profit_attr = (case res_profit r of None \<Rightarrow> 0.0 | Some p \<Rightarrow> p)
                      in s3\<lparr>files_2 := append_order_csv_row_2 (files_2 s3) (res_order r) order_num
                               time_now SYMBOL_2 sig LOT_SIZE current_price profit_attr
                               [Lit ''Signal='', Lit sig, Lit '', Slope='', Fixed 4 slope_val,
                                Lit '', VarUsed='', Fixed 4 (py_max variance_val VARIANCE_FLOOR)]\<rparr>)
                   else s3)
         else s2)"

definition iteration_2 :: "env \<Rightarrow> nat \<Rightarrow> state_2 \<Rightarrow> state_2" where
  "iteration_2 e order_num s =
     (let s1 = update_2 e s
      in if length (tick_buffer_2 s1) = TICK_BUFFER_SIZE_2 then order_attempt_2 e order_num s1
         else s1)"

fun main_loop_2 :: "(nat \<Rightarrow> env) \<Rightarrow> nat list \<Rightarrow> state_2 \<Rightarrow> state_2" where
  "main_loop_2 E [] s = s"
| "main_loop_2 E (order_num # rest) s = main_loop_2 E rest (iteration_2 (E order_num) order_num s)"

definition main_2 :: "(nat \<Rightarrow> env) \<Rightarrow> state_2 \<Rightarrow> state_2" where
  "main_2 E s = main_loop_2 E [1..<LOOP_ITERATIONS + 1] s"

section \<open>\<open>remove30_use_RawCalculatedVar.py\<close>: the raw variance\<close>

definition SYMBOL_3 :: string where
  "SYMBOL_3 = ''XAUUSD.sml''"

definition TICK_BUFFER_SIZE_3 :: nat where
  "TICK_BUFFER_SIZE_3 = 500"

text \<open>The file names and headers are those of \<open>HFT_2.py\<close>. \<open>latest_tick_time\<close> is a local
  of \<open>main\<close> that lives across the iterations.\<close>

record state_3 =
  tick_buffer_3 :: "real list"
  latest_tick_time_3 :: int
  files_3 :: files
  sent_3 :: "request list"

definition prepare_raw_tick_csv_3 :: "files \<Rightarrow> files" where
  "prepare_raw_tick_csv_3 fs =
     (if \<not> path_exists fs RAW_TICK_CSV then open_w_writerow fs RAW_TICK_CSV raw_tick_header
      else fs)"

definition append_raw_tick_csv_row_3 :: "files \<Rightarrow> fstring \<Rightarrow> fstring \<Rightarrow> string \<Rightarrow> real \<Rightarrow> files" where
  "append_raw_tick_csv_row_3 fs date_str time_str symbol price =
     open_a_writerow fs RAW_TICK_CSV [S date_str, S time_str, S [Lit symbol], S [Fixed 5 price]]"

definition prepare_tick_csv_3 :: "files \<Rightarrow> files" where
  "prepare_tick_csv_3 fs =
     (if \<not> path_exists fs TICK_CSV then open_w_writerow fs TICK_CSV tick_header else fs)"

definition prepare_order_csv_3 :: "files \<Rightarrow> files" where
  "prepare_order_csv_3 fs =
     (if \<not> path_exists fs ORDER_CSV then open_w_writerow fs ORDER_CSV order_header else fs)"

definition initialize_csvs_3 :: "files \<Rightarrow> files" where
  "initialize_csvs_3 fs = prepare_order_csv_3 (prepare_tick_csv_3 (prepare_raw_tick_csv_3 fs))"

definition request_3 :: "string \<Rightarrow> real \<Rightarrow> string \<Rightarrow> real \<Rightarrow> real \<Rightarrow> request" where
  "request_3 symbol volume order_type price variance =
     (if order_type = ''BUY'' then
        \<lparr>req_action = TRADE_ACTION_DEAL, req_symbol = symbol, req_volume = volume,
         req_type = ORDER_TYPE_BUY, req_price = price,
         req_sl = price - variance, req_tp = price + variance,
         req_deviation = 20, req_type_time = ORDER_TIME_GTC,
         req_type_filling = ORDER_FILLING_FOK,
         req_comment = [Lit ''Slope-based Buy (var='', Fixed 2 variance, Lit '')'']\<rparr>
      else
        \<lparr>req_action = TRADE_ACTION_DEAL, req_symbol = symbol, req_volume = volume,
         req_type = ORDER_TYPE_SELL, req_price = price,
         req_sl = price + variance, req_tp = price - variance,
         req_deviation = 20, req_type_time = ORDER_TIME_GTC,
         req_type_filling = ORDER_FILLING_FOK,
         req_comment = [Lit ''Slope-based Sell (var='', Fixed 2 variance, Lit '')'']\<rparr>)"

definition place_market_order_3 ::
  "env \<Rightarrow> string \<Rightarrow> real \<Rightarrow> string \<Rightarrow> real \<Rightarrow> real \<Rightarrow> order_result option" where
  "place_market_order_3 e symbol volume order_type price variance =
     order_send e (request_3 symbol volume order_type price variance)"

definition process_tick_3 :: "state_3 \<Rightarrow> tick \<Rightarrow> state_3" where
  "process_tick_3 s t =
     (let tick_dt = fromtimestamp (tick_time t);
          latest = advance_time (latest_tick_time_3 s) t;
          price = tick_price t;
          date_str = [Strftime ''%Y-%m-%d'' tick_dt];
          time_str = [StrftimeMs tick_dt]
      in s\<lparr>latest_tick_time_3 := latest,
            files_3 := append_raw_tick_csv_row_3 (files_3 s) date_str time_str SYMBOL_3 price,
            tick_buffer_3 := deque_append TICK_BUFFER_SIZE_3 (tick_buffer_3 s) price\<rparr>)"

definition update_3 :: "env \<Rightarrow> state_3 \<Rightarrow> state_3" where
  "update_3 e s =
     (case fetch_new_ticks e SYMBOL_3 (latest_tick_time_3 s) of
        None \<Rightarrow> s
      | Some ticks \<Rightarrow> if length ticks > 0 then foldl process_tick_3 s ticks else s)"

text \<open>The trend and the signal, set together (lines 227 to 235 of \<open>main\<close>).\<close>

definition decide_trend_3 :: "real \<Rightarrow> string \<times> string option" where
  "decide_trend_3 slope_val =
     (if slope_val > SLOPE_THRESHOLD then (''Bullish'', Some ''BUY'')
      else if slope_val < - SLOPE_THRESHOLD then (''Bearish'', Some ''SELL'')
      else (''Neutral'', None))"

definition order_attempt_3 :: "env \<Rightarrow> nat \<Rightarrow> state_3 \<Rightarrow> state_3" where
  "order_attempt_3 e order_num s =
     (let prices_list = tick_buffer_3 s;
          variance_val = np_var prices_list;
          x = py_range TICK_BUFFER_SIZE_3;
          slope_val = linregress_slope x prices_list;
          (trend_str, order_signal) = decide_trend_3 slope_val;
          date_agg = [Strftime ''%Y-%m-%d'' (now e 0)];
          time_agg = [Strftime ''%H:%M:%S'' (now e 1)];
          prices_str = join_fixed5 prices_list;
          s1 = s\<lparr>files_3 := open_a_writerow (files_3 s) TICK_CSV
                   [S date_agg, S time_agg, S [Lit SYMBOL_3], S prices_str,
                    S [Fixed 6 variance_val], S [Fixed 6 slope_val], S [Lit trend_str]]\<rparr>
      in if truthy order_signal then
           (let sig = the order_signal;
                current_price = last prices_list;
                req = request_3 SYMBOL_3 LOT_SIZE sig current_price variance_val;
                result = place_market_order_3 e SYMBOL_3 LOT_SIZE sig current_price variance_val;
                s2 = s1\<lparr>sent_3 := sent_3 s1 @ [req]\<rparr>;
                time_now = [Strftime ''%Y-%m-%d %H:%M:%S'' (now e 2)]
            in case result of
                 None \<Rightarrow> s2
               | Some r \<Rightarrow>
                   if res_retcode r = TRADE_RETCODE_DONE then
                     (let profit_attr = (case res_profit r of None \<Rightarrow> 0.0 | Some p \<Rightarrow> p)
                      in s2\<lparr>files_3 := open_a_writerow (files_3 s2) ORDER_CSV
                               [I (res_order r), I (int order_num), S time_now, S [Lit SYMBOL_3],
                                S [Lit sig], R LOT_SIZE, S [Fixed 5 current_price],
                                S [Fixed 2 profit_attr],
                                S [Lit ''Signal='', Lit sig, Lit '', Slope='', Fixed 4 slope_val,
                                   Lit '', Var='', Fixed 4 variance_val]]\<rparr>)
                   else s2)
         else s1)"

definition iteration_3 :: "env \<Rightarrow> nat \<Rightarrow> state_3 \<Rightarrow> state_3" where
  "iteration_3 e order_num s =
     (let s1 = update_3 e s
      in if length (tick_buffer_3 s1) = TICK_BUFFER_SIZE_3 then order_attempt_3 e order_num s1
         else s1)"

fun main_loop_3 :: "(nat \<Rightarrow> env) \<Rightarrow> nat list \<Rightarrow> state_3 \<Rightarrow> state_3" where
  "main_loop_3 E [] s = s"
| "main_loop_3 E (order_num # rest) s = main_loop_3 E rest (iteration_3 (E order_num) order_num s)"

definition main_3 :: "(nat \<Rightarrow> env) \<Rightarrow> state_3 \<Rightarrow> state_3" where
  "main_3 E s = main_loop_3 E [1..<LOOP_ITERATIONS + 1] s"

section \<open>Observations and sample inputs\<close>

text \<open>The invariant of an order request with stop distance \<open>d\<close>: take-profit and
  stop-loss lie \<open>d\<close> from the entry price, on the sides the order type asks for.\<close>

definition symmetric_stops :: "request \<Rightarrow> real \<Rightarrow> bool" where
  "symmetric_stops r d =
     (case req_type r of
        ORDER_TYPE_BUY \<Rightarrow> req_tp r = req_price r + d \<and> req_sl r = req_price r - d
      | ORDER_TYPE_SELL \<Rightarrow> req_tp r = req_price r - d \<and> req_sl r = req_price r + d)"

text \<open>The requests handed to \<open>mt5.order_send\<close> during one iteration.\<close>

definition submitted_1 :: "env \<Rightarrow> nat \<Rightarrow> state_1 \<Rightarrow> request list" where
  "submitted_1 e order_num s = drop (length (sent_1 s)) (sent_1 (fst (iteration_1 e order_num s)))"

definition submitted_2 :: "env \<Rightarrow> nat \<Rightarrow> state_2 \<Rightarrow> request list" where
  "submitted_2 e order_num s = drop (length (sent_2 s)) (sent_2 (iteration_2 e order_num s))"

definition submitted_3 :: "env \<Rightarrow> nat \<Rightarrow> state_3 \<Rightarrow> request list" where
  "submitted_3 e order_num s = drop (length (sent_3 s)) (sent_3 (iteration_3 e order_num s))"

text \<open>A window of \<open>n\<close> prices rising by one from 100, and a world in which the fetch
  returns no tick and every order is refused without a result object.\<close>

definition rising_window :: "nat \<Rightarrow> real list" where
  "rising_window n = map (\<lambda>a. 100 + 1 * a) (py_range n)"

definition quiet_env :: env where
  "quiet_env = \<lparr>copy_ticks_from = (\<lambda>symbol from_time count. Some []),
                order_send = (\<lambda>req. None), now = (\<lambda>k. 0)\<rparr>"

definition full_state_1 :: "real list \<Rightarrow> state_1" where
  "full_state_1 w = \<lparr>tick_buffer_1 = w, previous_slope_1 = 0, latest_tick_time_1 = 0,
     broker_min_stop_price = MIN_STOP_DEFAULT, files_1 = Map.empty, sent_1 = []\<rparr>"

definition full_state_2 :: "real list \<Rightarrow> state_2" where
  "full_state_2 w = \<lparr>tick_buffer_2 = w, previous_slope_2 = 0, latest_tick_time_2 = 0,
     files_2 = Map.empty, sent_2 = []\<rparr>"

definition full_state_3 :: "real list \<Rightarrow> state_3" where
  "full_state_3 w = \<lparr>tick_buffer_3 = w, latest_tick_time_3 = 0,
     files_3 = Map.empty, sent_3 = []\<rparr>"

text \<open>The classification as the specification words it: a trend from a threshold and a
  slope, the name the log gives the trend, and the order signal that goes with it.\<close>

datatype trend = Bullish | Bearish | Neutral

definition classify_spec :: "real \<Rightarrow> real \<Rightarrow> trend" where
  "classify_spec threshold slope =
     (if slope > threshold then Bullish else if slope < - threshold then Bearish else Neutral)"

fun trend_name :: "trend \<Rightarrow> string" where
  "trend_name Bullish = ''Bullish''"
| "trend_name Bearish = ''Bearish''"
| "trend_name Neutral = ''Neutral''"

fun intent_signal :: "trend \<Rightarrow> string option" where
  "intent_signal Bullish = Some ''BUY''"
| "intent_signal Bearish = Some ''SELL''"
| "intent_signal Neutral = None"

text \<open>The rows of a file, none when the file does not exist.\<close>

definition rows_of :: "files \<Rightarrow> string \<Rightarrow> row list" where
  "rows_of fs f = (case fs f of None \<Rightarrow> [] | Some rs \<Rightarrow> rs)"

text \<open>A disk on which \<open>tick_data.csv\<close> already holds its header and one row of data.\<close>

definition old_files :: files where
  "old_files = Map.empty(TICK_CSV_FILE_1 \<mapsto>
     [strs [''date'', ''time'', ''symbol'', ''price'', ''variance'', ''slope'', ''trend''],
      strs [''2025-01-01'', ''00:00:00.000'', ''BTCUSD'', ''100.00000'', ''N/A'', ''N/A'', ''N/A'']])"

text \<open>Every file of \<open>fs\<close> is still there in \<open>fs'\<close>, with its old rows first.\<close>

definition appended :: "files \<Rightarrow> files \<Rightarrow> bool" where
  "appended fs fs' = (\<forall>f old. fs f = Some old \<longrightarrow> (\<exists>more. fs' f = Some (old @ more)))"

section \<open>Auxiliary facts\<close>

subsection \<open>The deque\<close>

lemma length_deque_append_le:
  "length dq \<le> n \<Longrightarrow> length (deque_append n dq x) \<le> n"
  by (auto simp: deque_append_def Let_def)

lemma foldl_deque_append:
  "length dq \<le> n \<Longrightarrow>
     foldl (deque_append n) dq xs = drop (length (dq @ xs) - n) (dq @ xs)"
proof (induction xs arbitrary: dq)
  case Nil
  then show ?case by simp
next
  case (Cons x xs)
  have len: "length (deque_append n dq x) \<le> n"
    using Cons.prems by (rule length_deque_append_le)
  note IH = Cons.IH [OF len]
  show ?case
  proof (cases "length dq < n")
    case True
    then have "deque_append n dq x = dq @ [x]"
      by (simp add: deque_append_def Let_def)
    with IH show ?thesis by simp
  next
    case False
    with Cons.prems have full: "length dq = n" by simp
    then have step: "deque_append n dq x = tl (dq @ [x])"
      by (simp add: deque_append_def Let_def)
    have tl_eq: "tl (dq @ [x]) @ xs = tl (dq @ x # xs)"
      by (cases dq) simp_all
    have "length (tl (dq @ [x]) @ xs) - n = length xs"
      using full by simp
    with IH step tl_eq
    have "foldl (deque_append n) dq (x # xs) = drop (length xs) (tl (dq @ x # xs))"
      by simp
    also have "\<dots> = drop (Suc (length xs)) (dq @ x # xs)"
      by (simp only: drop_Suc)
    also have "Suc (length xs) = length (dq @ x # xs) - n"
      using full by simp
    finally show ?thesis .
  qed
qed

subsection \<open>Variance and slope of flat and of rising windows\<close>

lemma np_mean_replicate: "0 < n \<Longrightarrow> np_mean (replicate n p) = p"
  by (simp add: np_mean_def sum_list_replicate)


lemma sum_list_map_zero:
  "(\<And>x. x \<in> set xs \<Longrightarrow> f x = (0::real)) \<Longrightarrow> sum_list (map f xs) = 0"
  by (induction xs) simp_all

lemma linregress_slope_replicate: "linregress_slope x (replicate n p) = 0"
proof (cases "n = 0")
  case True
  then show ?thesis by (simp add: linregress_slope_def np_mean_def)
next
  case False
  then have ym: "np_mean (replicate n p) = p" by (simp add: np_mean_replicate)
  have "sum_list (map (\<lambda>(a, b). (a - np_mean x) * (b - p)) (zip x (replicate n p))) = 0"
    by (rule sum_list_map_zero) (auto dest: set_zip_rightD)
  then show ?thesis
    unfolding linregress_slope_def Let_def ym
    by (simp add: np_mean_def [of "map _ (zip _ _)"])
qed

lemma map_zip_same:
  "map (\<lambda>(a, b). g a b) (zip x (map f x)) = map (\<lambda>a. g a (f a)) x"
  by (induction x) simp_all

lemma np_mean_affine:
  "x \<noteq> [] \<Longrightarrow> np_mean (map (\<lambda>a. c + d * a) x) = c + d * np_mean x"
proof -
  assume "x \<noteq> []"
  then have n: "real (length x) \<noteq> 0" by simp
  have "sum_list (map (\<lambda>a. c + d * a) x) = real (length x) * c + d * sum_list x"
    by (induction x) (simp_all add: algebra_simps)
  with n show ?thesis
    by (simp add: np_mean_def field_simps)
qed

lemma linregress_slope_affine:
  assumes "np_mean (map (\<lambda>a. (a - np_mean x) * (a - np_mean x)) x) \<noteq> 0"
  shows "linregress_slope x (map (\<lambda>a. c + d * a) x) = d"
proof -
  from assms have ne: "x \<noteq> []" by (auto simp: np_mean_def)
  let ?xm = "np_mean x"
  have "map (\<lambda>(a, b). (a - ?xm) * (b - (c + d * ?xm))) (zip x (map (\<lambda>a. c + d * a) x))
        = map (\<lambda>a. d * ((a - ?xm) * (a - ?xm))) x"
    by (simp add: map_zip_same algebra_simps)
  then have "np_mean (map (\<lambda>(a, b). (a - ?xm) * (b - (c + d * ?xm))) (zip x (map (\<lambda>a. c + d * a) x)))
        = d * np_mean (map (\<lambda>a. (a - ?xm) * (a - ?xm)) x)"
    by (simp add: np_mean_def sum_list_const_mult)
  with assms show ?thesis
    by (simp add: linregress_slope_def Let_def np_mean_affine [OF ne])
qed

lemma ssxm_py_range_nonzero:
  assumes "2 \<le> n"
  shows "np_mean (map (\<lambda>a. (a - np_mean (py_range n)) * (a - np_mean (py_range n))) (py_range n)) \<noteq> 0"
proof
  let ?m = "np_mean (py_range n)"
  let ?sq = "map (\<lambda>a. (a - ?m) * (a - ?m)) (py_range n)"
  assume "np_mean ?sq = 0"
  with assms have "sum_list ?sq = 0"
    by (simp add: np_mean_def py_range_def)
  moreover have "\<And>v. v \<in> set ?sq \<Longrightarrow> 0 \<le> v" by auto
  ultimately have all0: "\<forall>v \<in> set ?sq. v = 0"
    by (simp only: sum_list_nonneg_eq_0_iff)
  have "real 0 \<in> set (py_range n)" "real 1 \<in> set (py_range n)"
    using assms unfolding py_range_def by (auto simp del: of_nat_0 of_nat_1 of_nat_Suc)
  then have "(real 0 - ?m) * (real 0 - ?m) \<in> set ?sq" "(real 1 - ?m) * (real 1 - ?m) \<in> set ?sq"
    by (auto simp del: of_nat_0 of_nat_1 of_nat_Suc)
  with all0 have "(real 0 - ?m) * (real 0 - ?m) = 0" "(real 1 - ?m) * (real 1 - ?m) = 0"
    by blast+
  then show False by simp
qed

lemma slope_rising_window: "2 \<le> n \<Longrightarrow> linregress_slope (py_range n) (rising_window n) = 1"
  unfolding rising_window_def
  by (rule linregress_slope_affine) (rule ssxm_py_range_nonzero)

lemma length_rising_window: "length (rising_window n) = n"
  by (simp add: rising_window_def py_range_def)

subsection \<open>What one iteration does to the fields of the state\<close>


lemma process_tick_1_fields:
  "tick_buffer_1 (process_tick_1 s t) = deque_append TICK_BUFFER_SIZE_1 (tick_buffer_1 s) (tick_price t)"
  "sent_1 (process_tick_1 s t) = sent_1 s"
  "broker_min_stop_price (process_tick_1 s t) = broker_min_stop_price s"
  "previous_slope_1 (process_tick_1 s t) = previous_slope_1 s"
  by (simp_all add: process_tick_1_def Let_def split_def)

lemma process_tick_2_fields:
  "tick_buffer_2 (process_tick_2 s t) = deque_append TICK_BUFFER_SIZE_2 (tick_buffer_2 s) (tick_price t)"
  "sent_2 (process_tick_2 s t) = sent_2 s"
  "previous_slope_2 (process_tick_2 s t) = previous_slope_2 s"
  by (simp_all add: process_tick_2_def Let_def)

lemma process_tick_3_fields:
  "tick_buffer_3 (process_tick_3 s t) = deque_append TICK_BUFFER_SIZE_3 (tick_buffer_3 s) (tick_price t)"
  "sent_3 (process_tick_3 s t) = sent_3 s"
  by (simp_all add: process_tick_3_def Let_def)

lemma foldl_process_tick_1_fields:
  "tick_buffer_1 (foldl process_tick_1 s ts)
     = foldl (deque_append TICK_BUFFER_SIZE_1) (tick_buffer_1 s) (map tick_price ts)"
  "sent_1 (foldl process_tick_1 s ts) = sent_1 s"
  "broker_min_stop_price (foldl process_tick_1 s ts) = broker_min_stop_price s"
  "previous_slope_1 (foldl process_tick_1 s ts) = previous_slope_1 s"
  by (induction ts arbitrary: s; simp add: process_tick_1_fields)+

lemma foldl_process_tick_2_fields:
  "tick_buffer_2 (foldl process_tick_2 s ts)
     = foldl (deque_append TICK_BUFFER_SIZE_2) (tick_buffer_2 s) (map tick_price ts)"
  "sent_2 (foldl process_tick_2 s ts) = sent_2 s"
  "previous_slope_2 (foldl process_tick_2 s ts) = previous_slope_2 s"
  by (induction ts arbitrary: s; simp add: process_tick_2_fields)+

lemma foldl_process_tick_3_fields:
  "tick_buffer_3 (foldl process_tick_3 s ts)
     = foldl (deque_append TICK_BUFFER_SIZE_3) (tick_buffer_3 s) (map tick_price ts)"
  "sent_3 (foldl process_tick_3 s ts) = sent_3 s"
  by (induction ts arbitrary: s; simp add: process_tick_3_fields)+

lemma sent_update_1: "sent_1 (update_1 e s) = sent_1 s"
  by (simp add: update_1_def foldl_process_tick_1_fields split: option.splits)

lemma sent_update_2: "sent_2 (update_2 e s) = sent_2 s"
  by (simp add: update_2_def foldl_process_tick_2_fields split: option.splits)

lemma sent_update_3: "sent_3 (update_3 e s) = sent_3 s"
  by (simp add: update_3_def foldl_process_tick_3_fields split: option.splits)

lemma truthy_order_signal_1: "truthy (order_signal_1 v) = (order_signal_1 v \<noteq> None)"
  by (simp add: truthy_def order_signal_1_def)

lemma truthy_order_signal_2: "truthy (order_signal_2 v) = (order_signal_2 v \<noteq> None)"
  by (simp add: truthy_def order_signal_2_def)

lemma truthy_decide_trend_3: "truthy (snd (decide_trend_3 v)) = (snd (decide_trend_3 v) \<noteq> None)"
  by (simp add: truthy_def decide_trend_3_def)

lemma sent_order_attempt_1:
  "sent_1 (fst (order_attempt_1 e n s)) = sent_1 s @
     (case order_signal_1 (linregress_slope (py_range TICK_BUFFER_SIZE_1) (tick_buffer_1 s)) of
        None \<Rightarrow> []
      | Some sig \<Rightarrow> [request_1 SYMBOL_1 LOT_SIZE sig (last (tick_buffer_1 s)) (effective_stop_1 s)])"
  by (auto simp: order_attempt_1_def Let_def truthy_order_signal_1 split: option.splits)

lemma sent_order_attempt_2:
  "sent_2 (order_attempt_2 e n s) = sent_2 s @
     (case order_signal_2 (trend_decision_2
             (linregress_slope (py_range TICK_BUFFER_SIZE_2) (tick_buffer_2 s))) of
        None \<Rightarrow> []
      | Some sig \<Rightarrow> [request_2 SYMBOL_2 LOT_SIZE sig (last (tick_buffer_2 s)) (np_var (tick_buffer_2 s))])"
  by (auto simp: order_attempt_2_def Let_def truthy_order_signal_2 split: option.splits)

lemma sent_order_attempt_3:
  "sent_3 (order_attempt_3 e n s) = sent_3 s @
     (case snd (decide_trend_3 (linregress_slope (py_range TICK_BUFFER_SIZE_3) (tick_buffer_3 s))) of
        None \<Rightarrow> []
      | Some sig \<Rightarrow> [request_3 SYMBOL_3 LOT_SIZE sig (last (tick_buffer_3 s)) (np_var (tick_buffer_3 s))])"
  by (auto simp: order_attempt_3_def Let_def split_def truthy_decide_trend_3 split: option.splits)

lemma submitted_1_eq:
  "submitted_1 e n s =
     (if length (tick_buffer_1 (update_1 e s)) = TICK_BUFFER_SIZE_1 then
        (case order_signal_1 (linregress_slope (py_range TICK_BUFFER_SIZE_1)
                (tick_buffer_1 (update_1 e s))) of
           None \<Rightarrow> []
         | Some sig \<Rightarrow> [request_1 SYMBOL_1 LOT_SIZE sig (last (tick_buffer_1 (update_1 e s)))
                          (effective_stop_1 (update_1 e s))])
      else [])"
  by (simp add: submitted_1_def iteration_1_def Let_def sent_order_attempt_1 sent_update_1)

lemma submitted_2_eq:
  "submitted_2 e n s =
     (if length (tick_buffer_2 (update_2 e s)) = TICK_BUFFER_SIZE_2 then
        (case order_signal_2 (trend_decision_2 (linregress_slope (py_range TICK_BUFFER_SIZE_2)
                (tick_buffer_2 (update_2 e s)))) of
           None \<Rightarrow> []
         | Some sig \<Rightarrow> [request_2 SYMBOL_2 LOT_SIZE sig (last (tick_buffer_2 (update_2 e s)))
                          (np_var (tick_buffer_2 (update_2 e s)))])
      else [])"
  by (simp add: submitted_2_def iteration_2_def Let_def sent_order_attempt_2 sent_update_2)

lemma submitted_3_eq:
  "submitted_3 e n s =
     (if length (tick_buffer_3 (update_3 e s)) = TICK_BUFFER_SIZE_3 then
        (case snd (decide_trend_3 (linregress_slope (py_range TICK_BUFFER_SIZE_3)
                (tick_buffer_3 (update_3 e s)))) of
           None \<Rightarrow> []
         | Some sig \<Rightarrow> [request_3 SYMBOL_3 LOT_SIZE sig (last (tick_buffer_3 (update_3 e s)))
                          (np_var (tick_buffer_3 (update_3 e s)))])
      else [])"
  by (simp add: submitted_3_def iteration_3_def Let_def sent_order_attempt_3 sent_update_3)

lemma symmetric_stops_request_1:
  "sig = ''BUY'' \<or> sig = ''SELL'' \<Longrightarrow> symmetric_stops (request_1 symbol vol sig p d) d"
  by (auto simp: symmetric_stops_def request_1_def)

lemma symmetric_stops_request_2:
  "symmetric_stops (request_2 symbol vol sig p v) (effective_variance_2 v)"
  by (auto simp: symmetric_stops_def request_2_def Let_def)

lemma symmetric_stops_request_3:
  "symmetric_stops (request_3 symbol vol sig p d) d"
  by (auto simp: symmetric_stops_def request_3_def)

subsection \<open>An iteration without ticks\<close>

lemma fetch_quiet_env: "fetch_new_ticks quiet_env symbol t = Some []"
  by (simp add: fetch_new_ticks_def quiet_env_def)

lemma update_1_no_ticks:
  "fetch_new_ticks e SYMBOL_1 (latest_tick_time_1 s) \<in> {None, Some []} \<Longrightarrow> update_1 e s = s"
  by (auto simp: update_1_def)

lemma update_2_no_ticks:
  "fetch_new_ticks e SYMBOL_2 (latest_tick_time_2 s) \<in> {None, Some []} \<Longrightarrow> update_2 e s = s"
  by (auto simp: update_2_def)

lemma update_3_no_ticks:
  "fetch_new_ticks e SYMBOL_3 (latest_tick_time_3 s) \<in> {None, Some []} \<Longrightarrow> update_3 e s = s"
  by (auto simp: update_3_def)

lemma last_rising_window: "0 < n \<Longrightarrow> last (rising_window n) = 100 + real (n - 1)"
  by (simp add: rising_window_def py_range_def last_map)

lemma submitted_1_quiet_rising:
  "submitted_1 quiet_env n (full_state_1 (rising_window 30))
     = [request_1 SYMBOL_1 LOT_SIZE ''BUY'' 129 (effective_stop_1 (full_state_1 (rising_window 30)))]"
proof -
  have u: "update_1 quiet_env (full_state_1 (rising_window 30)) = full_state_1 (rising_window 30)"
    by (rule update_1_no_ticks) (simp add: fetch_quiet_env)
  have b: "tick_buffer_1 (full_state_1 (rising_window 30)) = rising_window 30"
    by (simp add: full_state_1_def)
  show ?thesis
    unfolding submitted_1_eq u b
    by (simp add: TICK_BUFFER_SIZE_1_def length_rising_window slope_rising_window
        order_signal_1_def SLOPE_THRESHOLD_def last_rising_window)
qed

lemma submitted_2_quiet_rising:
  "submitted_2 quiet_env n (full_state_2 (rising_window 30))
     = [request_2 SYMBOL_2 LOT_SIZE ''BUY'' 129 (np_var (rising_window 30))]"
proof -
  have u: "update_2 quiet_env (full_state_2 (rising_window 30)) = full_state_2 (rising_window 30)"
    by (rule update_2_no_ticks) (simp add: fetch_quiet_env)
  have b: "tick_buffer_2 (full_state_2 (rising_window 30)) = rising_window 30"
    by (simp add: full_state_2_def)
  show ?thesis
    unfolding submitted_2_eq u b
    by (simp add: TICK_BUFFER_SIZE_2_def length_rising_window slope_rising_window
        order_signal_2_def trend_decision_2_def SLOPE_THRESHOLD_def last_rising_window)
qed

lemma submitted_3_quiet_rising:
  "submitted_3 quiet_env n (full_state_3 (rising_window 500))
     = [request_3 SYMBOL_3 LOT_SIZE ''BUY'' 599 (np_var (rising_window 500))]"
proof -
  have u: "update_3 quiet_env (full_state_3 (rising_window 500)) = full_state_3 (rising_window 500)"
    by (rule update_3_no_ticks) (simp add: fetch_quiet_env)
  have b: "tick_buffer_3 (full_state_3 (rising_window 500)) = rising_window 500"
    by (simp add: full_state_3_def)
  show ?thesis
    unfolding submitted_3_eq u b
    by (simp add: TICK_BUFFER_SIZE_3_def length_rising_window slope_rising_window
        decide_trend_3_def SLOPE_THRESHOLD_def last_rising_window)
qed

subsection \<open>The stop distances\<close>


lemma py_max_eq_max: "py_max a b = max a b"
  by (simp add: py_max_def max_def)

lemma effective_variance_2_eq_max: "effective_variance_2 v = max v 30"
  by (simp add: effective_variance_2_def VARIANCE_FLOOR_def max_def)

lemma effective_stop_1_eq_max:
  "effective_stop_1 s = max (2 * sqrt (np_var (tick_buffer_1 s))) (broker_min_stop_price s)"
  by (simp add: effective_stop_1_def Let_def py_max_eq_max np_std_def STDEV_MULTIPLIER_def)

lemma broker_min_stop_price_order_attempt_1:
  "broker_min_stop_price (fst (order_attempt_1 e n s)) = broker_min_stop_price s"
  by (auto simp: order_attempt_1_def Let_def split: option.splits)

lemma broker_min_stop_price_update_1:
  "broker_min_stop_price (update_1 e s) = broker_min_stop_price s"
  by (simp add: update_1_def foldl_process_tick_1_fields split: option.splits)

lemma broker_min_stop_price_iteration_1:
  "broker_min_stop_price (fst (iteration_1 e n s)) = broker_min_stop_price s"
  by (simp add: iteration_1_def Let_def broker_min_stop_price_order_attempt_1
      broker_min_stop_price_update_1)

lemma broker_min_stop_price_main_loop_1:
  "broker_min_stop_price (fst (main_loop_1 E ns s)) = broker_min_stop_price s"
proof (induction ns arbitrary: s)
  case Nil
  then show ?case by simp
next
  case (Cons n ns)
  obtain s' err where it: "iteration_1 (E n) n s = (s', err)"
    by (cases "iteration_1 (E n) n s")
  then have "broker_min_stop_price s' = broker_min_stop_price s"
    using broker_min_stop_price_iteration_1 [of "E n" n s] by simp
  with it Cons.IH [of s'] show ?case
    by (cases err) simp_all
qed

subsection \<open>Files, and the flat window\<close>


lemma open_a_writerow_apply:
  "open_a_writerow fs f r g = (if g = f then Some (rows_of fs f @ [r]) else fs g)"
  by (simp add: open_a_writerow_def rows_of_def)

lemma file_names_distinct:
  "TICK_CSV \<noteq> ORDER_CSV" "ORDER_CSV \<noteq> TICK_CSV"
  "TICK_CSV \<noteq> RAW_TICK_CSV" "RAW_TICK_CSV \<noteq> TICK_CSV"
  "ORDER_CSV \<noteq> RAW_TICK_CSV" "RAW_TICK_CSV \<noteq> ORDER_CSV"
  "TICK_CSV_FILE_1 \<noteq> ORDER_CSV_FILE_1" "ORDER_CSV_FILE_1 \<noteq> TICK_CSV_FILE_1"
  by (simp_all add: TICK_CSV_def ORDER_CSV_def RAW_TICK_CSV_def TICK_CSV_FILE_1_def
      ORDER_CSV_FILE_1_def)




subsection \<open>A slope other than zero needs a positive variance\<close>

lemma np_var_zero_flat:
  assumes "np_var w = 0"
  shows "w = replicate (length w) (np_mean w)"
proof (cases "w = []")
  case True
  then show ?thesis by simp
next
  case False
  let ?sq = "map (\<lambda>x. (x - np_mean w)\<^sup>2) w"
  from False assms have "sum_list ?sq = 0"
    by (simp add: np_var_def np_mean_def [of ?sq])
  moreover have "\<And>v. v \<in> set ?sq \<Longrightarrow> 0 \<le> v" by auto
  ultimately have "\<forall>v \<in> set ?sq. v = 0"
    by (simp only: sum_list_nonneg_eq_0_iff)
  then have "\<And>y. y \<in> set w \<Longrightarrow> y = np_mean w" by auto
  then show ?thesis
    by (intro replicate_eqI) simp_all
qed

lemma np_var_nonneg: "0 \<le> np_var w"
  by (auto simp: np_var_def np_mean_def intro!: divide_nonneg_nonneg sum_list_nonneg)

lemma slope_nonzero_var_pos:
  assumes "linregress_slope x w \<noteq> 0"
  shows "0 < np_var w"
proof (rule ccontr)
  assume "\<not> 0 < np_var w"
  with np_var_nonneg [of w] have "np_var w = 0" by simp
  from np_var_zero_flat [OF this] have "linregress_slope x w = 0"
    using linregress_slope_replicate [of x "length w" "np_mean w"] by simp
  with assms show False by simp
qed

lemma submitted_3_positive_variance:
  "list_all (\<lambda>r. 0 < np_var (tick_buffer_3 (update_3 e s))) (submitted_3 e n s)"
proof -
  have "snd (decide_trend_3 v) \<noteq> None \<Longrightarrow> v \<noteq> 0" for v
    by (auto simp: decide_trend_3_def SLOPE_THRESHOLD_def split: if_splits)
  then show ?thesis
    by (auto simp: submitted_3_eq split: option.splits intro: slope_nonzero_var_pos)
qed

subsection \<open>Writes that only append\<close>

lemma appended_refl: "appended fs fs"
  by (simp add: appended_def)

lemma appended_trans: "appended a b \<Longrightarrow> appended b c \<Longrightarrow> appended a c"
  unfolding appended_def by (metis append.assoc)

lemma appended_open_a: "appended fs (open_a_writerow fs f r)"
  by (auto simp: appended_def open_a_writerow_def)

lemma appended_process_tick_1: "appended (files_1 s) (files_1 (process_tick_1 s t))"
  by (simp add: process_tick_1_def Let_def split_def append_tick_csv_row_1_def appended_open_a)

lemma appended_process_tick_2: "appended (files_2 s) (files_2 (process_tick_2 s t))"
  by (simp add: process_tick_2_def Let_def append_raw_tick_csv_row_2_def appended_open_a)

lemma appended_process_tick_3: "appended (files_3 s) (files_3 (process_tick_3 s t))"
  by (simp add: process_tick_3_def Let_def append_raw_tick_csv_row_3_def appended_open_a)

lemma appended_foldl_1: "appended (files_1 s) (files_1 (foldl process_tick_1 s ts))"
proof (induction ts arbitrary: s)
  case Nil
  show ?case by (simp add: appended_refl)
next
  case (Cons t ts)
  from appended_process_tick_1 [of s t] Cons.IH [of "process_tick_1 s t"]
  show ?case by (simp add: appended_trans)
qed

lemma appended_foldl_2: "appended (files_2 s) (files_2 (foldl process_tick_2 s ts))"
proof (induction ts arbitrary: s)
  case Nil
  show ?case by (simp add: appended_refl)
next
  case (Cons t ts)
  from appended_process_tick_2 [of s t] Cons.IH [of "process_tick_2 s t"]
  show ?case by (simp add: appended_trans)
qed

lemma appended_foldl_3: "appended (files_3 s) (files_3 (foldl process_tick_3 s ts))"
proof (induction ts arbitrary: s)
  case Nil
  show ?case by (simp add: appended_refl)
next
  case (Cons t ts)
  from appended_process_tick_3 [of s t] Cons.IH [of "process_tick_3 s t"]
  show ?case by (simp add: appended_trans)
qed

lemma appended_update_1: "appended (files_1 s) (files_1 (update_1 e s))"
  by (simp add: update_1_def appended_refl appended_foldl_1 split: option.splits)

lemma appended_update_2: "appended (files_2 s) (files_2 (update_2 e s))"
  by (simp add: update_2_def appended_refl appended_foldl_2 split: option.splits)

lemma appended_update_3: "appended (files_3 s) (files_3 (update_3 e s))"
  by (simp add: update_3_def appended_refl appended_foldl_3 split: option.splits)

lemma appended_order_attempt_1: "appended (files_1 s) (files_1 (fst (order_attempt_1 e n s)))"
  by (auto simp: order_attempt_1_def Let_def append_order_csv_row_1_def appended_refl
      appended_open_a split: option.splits)

lemma appended_order_attempt_2: "appended (files_2 s) (files_2 (order_attempt_2 e n s))"
proof -
  have "appended fs (open_a_writerow (open_a_writerow fs f r) g q)" for fs f r g q
    by (rule appended_trans [OF appended_open_a appended_open_a])
  then show ?thesis
    by (auto simp: order_attempt_2_def Let_def append_order_csv_row_2_def
        append_tick_csv_row_2_def appended_open_a split: option.splits)
qed

lemma appended_order_attempt_3: "appended (files_3 s) (files_3 (order_attempt_3 e n s))"
proof -
  have "appended fs (open_a_writerow (open_a_writerow fs f r) g q)" for fs f r g q
    by (rule appended_trans [OF appended_open_a appended_open_a])
  then show ?thesis
    by (auto simp: order_attempt_3_def Let_def split_def appended_open_a split: option.splits)
qed

lemma appended_iteration_1: "appended (files_1 s) (files_1 (fst (iteration_1 e n s)))"
  using appended_update_1 [of s e] appended_order_attempt_1 [of "update_1 e s" e n]
  by (auto simp: iteration_1_def Let_def intro: appended_trans)

lemma appended_iteration_2: "appended (files_2 s) (files_2 (iteration_2 e n s))"
  using appended_update_2 [of s e] appended_order_attempt_2 [of "update_2 e s" e n]
  by (auto simp: iteration_2_def Let_def intro: appended_trans)

lemma appended_iteration_3: "appended (files_3 s) (files_3 (iteration_3 e n s))"
  using appended_update_3 [of s e] appended_order_attempt_3 [of "update_3 e s" e n]
  by (auto simp: iteration_3_def Let_def intro: appended_trans)

lemma appended_main_loop_1: "appended (files_1 s) (files_1 (fst (main_loop_1 E ns s)))"
proof (induction ns arbitrary: s)
  case Nil
  show ?case by (simp add: appended_refl)
next
  case (Cons n ns)
  obtain s' err where it: "iteration_1 (E n) n s = (s', err)"
    by (cases "iteration_1 (E n) n s")
  then have step: "appended (files_1 s) (files_1 s')"
    using appended_iteration_1 [of s "E n" n] by simp
  show ?case
  proof (cases err)
    case None
    with it step Cons.IH [of s'] show ?thesis by (simp add: appended_trans)
  next
    case (Some x)
    with it step show ?thesis by simp
  qed
qed

lemma appended_main_loop_2: "appended (files_2 s) (files_2 (main_loop_2 E ns s))"
proof (induction ns arbitrary: s)
  case Nil
  show ?case by (simp add: appended_refl)
next
  case (Cons n ns)
  from appended_iteration_2 [of s "E n" n] Cons.IH [of "iteration_2 (E n) n s"]
  show ?case by (simp add: appended_trans)
qed

lemma appended_main_loop_3: "appended (files_3 s) (files_3 (main_loop_3 E ns s))"
proof (induction ns arbitrary: s)
  case Nil
  show ?case by (simp add: appended_refl)
next
  case (Cons n ns)
  from appended_iteration_3 [of s "E n" n] Cons.IH [of "iteration_3 (E n) n s"]
  show ?case by (simp add: appended_trans)
qed

lemma appended_prepare:
  "appended fs (if \<not> path_exists fs f then open_w_writerow fs f h else fs)"
  by (auto simp: appended_def path_exists_def open_w_writerow_def)

lemma appended_initialize_csvs_2: "appended fs (initialize_csvs_2 fs)"
  unfolding initialize_csvs_2_def prepare_raw_tick_csv_2_def prepare_tick_csv_2_def
    prepare_order_csv_2_def
  by (blast intro: appended_trans appended_prepare)

lemma appended_initialize_csvs_3: "appended fs (initialize_csvs_3 fs)"
  unfolding initialize_csvs_3_def prepare_raw_tick_csv_3_def prepare_tick_csv_3_def
    prepare_order_csv_3_def
  by (blast intro: appended_trans appended_prepare)

subsection \<open>The stored slope passes through an iteration\<close>

lemma process_tick_1_previous_slope:
  "process_tick_1 (s\<lparr>previous_slope_1 := a\<rparr>) t = (process_tick_1 s t)\<lparr>previous_slope_1 := a\<rparr>"
  by (simp add: process_tick_1_def Let_def split_def)

lemma foldl_process_tick_1_previous_slope:
  "foldl process_tick_1 (s\<lparr>previous_slope_1 := a\<rparr>) ts
     = (foldl process_tick_1 s ts)\<lparr>previous_slope_1 := a\<rparr>"
  by (induction ts arbitrary: s) (simp_all add: process_tick_1_previous_slope)

lemma update_1_previous_slope:
  "update_1 e (s\<lparr>previous_slope_1 := a\<rparr>) = (update_1 e s)\<lparr>previous_slope_1 := a\<rparr>"
  by (simp add: update_1_def foldl_process_tick_1_previous_slope split: option.splits)

lemma order_attempt_1_previous_slope:
  "order_attempt_1 e n (s\<lparr>previous_slope_1 := a\<rparr>)
     = (case order_attempt_1 e n s of (s', err) \<Rightarrow> (s'\<lparr>previous_slope_1 := a\<rparr>, err))"
  by (auto simp: order_attempt_1_def effective_stop_1_def Let_def split: option.splits)

lemma iteration_1_previous_slope:
  "iteration_1 e n (s\<lparr>previous_slope_1 := a\<rparr>)
     = (case iteration_1 e n s of (s', err) \<Rightarrow> (s'\<lparr>previous_slope_1 := a\<rparr>, err))"
  by (simp add: iteration_1_def Let_def update_1_previous_slope order_attempt_1_previous_slope)

lemma process_tick_2_previous_slope:
  "process_tick_2 (s\<lparr>previous_slope_2 := a\<rparr>) t = (process_tick_2 s t)\<lparr>previous_slope_2 := a\<rparr>"
  by (simp add: process_tick_2_def Let_def)

lemma foldl_process_tick_2_previous_slope:
  "foldl process_tick_2 (s\<lparr>previous_slope_2 := a\<rparr>) ts
     = (foldl process_tick_2 s ts)\<lparr>previous_slope_2 := a\<rparr>"
  by (induction ts arbitrary: s) (simp_all add: process_tick_2_previous_slope)

lemma update_2_previous_slope:
  "update_2 e (s\<lparr>previous_slope_2 := a\<rparr>) = (update_2 e s)\<lparr>previous_slope_2 := a\<rparr>"
  by (simp add: update_2_def foldl_process_tick_2_previous_slope split: option.splits)

lemma order_attempt_2_previous_slope:
  "order_attempt_2 e n (s\<lparr>previous_slope_2 := a\<rparr>) = order_attempt_2 e n s"
  by (auto simp: order_attempt_2_def Let_def split: option.splits)

lemma iteration_2_previous_slope:
  "iteration_2 e n (s\<lparr>previous_slope_2 := a\<rparr>)
     = (if length (tick_buffer_2 (update_2 e s)) = TICK_BUFFER_SIZE_2 then iteration_2 e n s
        else (iteration_2 e n s)\<lparr>previous_slope_2 := a\<rparr>)"
  by (simp add: iteration_2_def Let_def update_2_previous_slope order_attempt_2_previous_slope)

section \<open>The claims\<close>

subsection \<open>C1: the order request\<close>

text \<open>
  Claim C1. In every variant, the request built for a buy at entry price \<open>p\<close> with stop
  distance \<open>d\<close> has take-profit \<open>p + d\<close> and stop-loss \<open>p - d\<close>, and the request built
  for a sell has take-profit \<open>p - d\<close> and stop-loss \<open>p + d\<close>; in \<open>HFT_2.py\<close> the stop
  distance is the floored variance that \<open>place_market_order\<close> computes. Every request
  that an iteration hands to \<open>mt5.order_send\<close> satisfies this with the stop distance of
  its variant.
\<close>

theorem order_request_stops:
  "req_tp (request_1 symbol vol ''BUY'' p d) = p + d
   \<and> req_sl (request_1 symbol vol ''BUY'' p d) = p - d
   \<and> req_tp (request_1 symbol vol ''SELL'' p d) = p - d
   \<and> req_sl (request_1 symbol vol ''SELL'' p d) = p + d
   \<and> req_price (request_1 symbol vol ''BUY'' p d) = p
   \<and> req_price (request_1 symbol vol ''SELL'' p d) = p
   \<and> req_tp (request_2 symbol vol ''BUY'' p v) = p + effective_variance_2 v
   \<and> req_sl (request_2 symbol vol ''BUY'' p v) = p - effective_variance_2 v
   \<and> req_tp (request_2 symbol vol ''SELL'' p v) = p - effective_variance_2 v
   \<and> req_sl (request_2 symbol vol ''SELL'' p v) = p + effective_variance_2 v
   \<and> req_price (request_2 symbol vol ''BUY'' p v) = p
   \<and> req_price (request_2 symbol vol ''SELL'' p v) = p
   \<and> req_tp (request_3 symbol vol ''BUY'' p d) = p + d
   \<and> req_sl (request_3 symbol vol ''BUY'' p d) = p - d
   \<and> req_tp (request_3 symbol vol ''SELL'' p d) = p - d
   \<and> req_sl (request_3 symbol vol ''SELL'' p d) = p + d
   \<and> req_price (request_3 symbol vol ''BUY'' p d) = p
   \<and> req_price (request_3 symbol vol ''SELL'' p d) = p
   \<and> list_all (\<lambda>r. symmetric_stops r (effective_stop_1 (update_1 e1 s1))) (submitted_1 e1 n s1)
   \<and> list_all (\<lambda>r. symmetric_stops r (effective_variance_2 (np_var (tick_buffer_2 (update_2 e2 s2)))))
        (submitted_2 e2 n s2)
   \<and> list_all (\<lambda>r. symmetric_stops r (np_var (tick_buffer_3 (update_3 e3 s3)))) (submitted_3 e3 n s3)"
proof -
  have a: "list_all (\<lambda>r. symmetric_stops r (effective_stop_1 (update_1 e1 s1))) (submitted_1 e1 n s1)"
    by (simp add: submitted_1_eq order_signal_1_def symmetric_stops_request_1)
  have b: "list_all (\<lambda>r. symmetric_stops r (effective_variance_2 (np_var (tick_buffer_2 (update_2 e2 s2)))))
        (submitted_2 e2 n s2)"
    by (simp add: submitted_2_eq symmetric_stops_request_2 split: option.splits)
  have c: "list_all (\<lambda>r. symmetric_stops r (np_var (tick_buffer_3 (update_3 e3 s3)))) (submitted_3 e3 n s3)"
    by (simp add: submitted_3_eq symmetric_stops_request_3 split: option.splits)
  from a b c show ?thesis
    by (simp add: request_1_def request_2_def request_3_def Let_def)
qed

text \<open>The theorem at an iteration of each variant that sends a buy order: no tick
  arrives and the window holds the prices 100, 101, and so on.\<close>

theorem order_request_stops_witness:
  "submitted_1 quiet_env 1 (full_state_1 (rising_window 30))
     = [request_1 SYMBOL_1 LOT_SIZE ''BUY'' 129 (effective_stop_1 (full_state_1 (rising_window 30)))]
   \<and> symmetric_stops
        (request_1 SYMBOL_1 LOT_SIZE ''BUY'' 129 (effective_stop_1 (full_state_1 (rising_window 30))))
        (effective_stop_1 (full_state_1 (rising_window 30)))
   \<and> submitted_2 quiet_env 1 (full_state_2 (rising_window 30))
     = [request_2 SYMBOL_2 LOT_SIZE ''BUY'' 129 (np_var (rising_window 30))]
   \<and> symmetric_stops (request_2 SYMBOL_2 LOT_SIZE ''BUY'' 129 (np_var (rising_window 30)))
        (effective_variance_2 (np_var (rising_window 30)))
   \<and> submitted_3 quiet_env 1 (full_state_3 (rising_window 500))
     = [request_3 SYMBOL_3 LOT_SIZE ''BUY'' 599 (np_var (rising_window 500))]
   \<and> symmetric_stops (request_3 SYMBOL_3 LOT_SIZE ''BUY'' 599 (np_var (rising_window 500)))
        (np_var (rising_window 500))"
proof -
  have u1: "update_1 quiet_env (full_state_1 (rising_window 30)) = full_state_1 (rising_window 30)"
    by (rule update_1_no_ticks) (simp add: fetch_quiet_env)
  have u2: "update_2 quiet_env (full_state_2 (rising_window 30)) = full_state_2 (rising_window 30)"
    by (rule update_2_no_ticks) (simp add: fetch_quiet_env)
  have u3: "update_3 quiet_env (full_state_3 (rising_window 500)) = full_state_3 (rising_window 500)"
    by (rule update_3_no_ticks) (simp add: fetch_quiet_env)
  have b2: "tick_buffer_2 (full_state_2 (rising_window 30)) = rising_window 30"
    by (simp add: full_state_2_def)
  have b3: "tick_buffer_3 (full_state_3 (rising_window 500)) = rising_window 500"
    by (simp add: full_state_3_def)
  show ?thesis
    using order_request_stops [of SYMBOL_1 LOT_SIZE 129 0 0 quiet_env "full_state_1 (rising_window 30)" 1
        quiet_env "full_state_2 (rising_window 30)" quiet_env "full_state_3 (rising_window 500)"]
    by (simp add: u1 u2 u3 b2 b3 submitted_1_quiet_rising submitted_2_quiet_rising
        submitted_3_quiet_rising)
qed

subsection \<open>C2: the trend classification\<close>

text \<open>
  Claim C2. In every variant the trend is a function of the slope and the threshold
  0.0001 alone: Bullish when the slope is greater than the threshold, Bearish when it is
  less than the negated threshold, Neutral otherwise. A slope equal to the threshold or
  to the negated threshold is Neutral. The order signal follows the trend.
\<close>

theorem trend_classification:
  "trend_str_1 slope = trend_name (classify_spec 0.0001 slope)
   \<and> order_signal_1 slope = intent_signal (classify_spec 0.0001 slope)
   \<and> trend_decision_2 slope = trend_name (classify_spec 0.0001 slope)
   \<and> order_signal_2 (trend_decision_2 slope) = intent_signal (classify_spec 0.0001 slope)
   \<and> decide_trend_3 slope
        = (trend_name (classify_spec 0.0001 slope), intent_signal (classify_spec 0.0001 slope))
   \<and> classify_spec 0.0001 0.0001 = Neutral
   \<and> classify_spec 0.0001 (- 0.0001) = Neutral
   \<and> trend_str_1 0.0001 = ''Neutral'' \<and> trend_str_1 (- 0.0001) = ''Neutral''
   \<and> trend_decision_2 0.0001 = ''Neutral'' \<and> trend_decision_2 (- 0.0001) = ''Neutral''
   \<and> decide_trend_3 0.0001 = (''Neutral'', None) \<and> decide_trend_3 (- 0.0001) = (''Neutral'', None)"
  by (simp add: trend_str_1_def order_signal_1_def trend_decision_2_def order_signal_2_def
      decide_trend_3_def classify_spec_def SLOPE_THRESHOLD_def)

subsection \<open>C3: the stop distance of \<open>HFT_1.py\<close>\<close>

text \<open>
  Claim C3. In \<open>HFT_1.py\<close> the effective stop distance is the greater of twice the
  standard deviation of the window and the broker's minimum stop distance, so it is
  never below that minimum. The minimum is computed once at startup as the broker's
  stop level times the point size, replaced by 0.0005 when that product is not
  positive, and no iteration changes it. Every request an iteration submits has its
  stops at that distance from the entry price.
\<close>

theorem policy_A_stop_distance:
  "effective_stop_1 s = max (2.0 * sqrt (np_var (tick_buffer_1 s))) (broker_min_stop_price s)
   \<and> broker_min_stop_price s \<le> effective_stop_1 s
   \<and> init_broker_min_stop_price info =
       (if real_of_int (trade_stops_level info) * point info \<le> 0 then 0.0005
        else real_of_int (trade_stops_level info) * point info)
   \<and> map_option broker_min_stop_price (startup_1 fs t0 True True (Some info))
       = Some (init_broker_min_stop_price info)
   \<and> broker_min_stop_price (fst (iteration_1 e n s)) = broker_min_stop_price s
   \<and> broker_min_stop_price (fst (main_1 E s)) = broker_min_stop_price s
   \<and> list_all (\<lambda>r. symmetric_stops r
         (max (2.0 * sqrt (np_var (tick_buffer_1 (update_1 e s)))) (broker_min_stop_price s)))
       (submitted_1 e n s)"
proof -
  have a: "list_all (\<lambda>r. symmetric_stops r (effective_stop_1 (update_1 e s))) (submitted_1 e n s)"
    by (simp add: submitted_1_eq order_signal_1_def symmetric_stops_request_1)
  have b: "effective_stop_1 (update_1 e s)
      = max (2.0 * sqrt (np_var (tick_buffer_1 (update_1 e s)))) (broker_min_stop_price s)"
    by (simp add: effective_stop_1_eq_max broker_min_stop_price_update_1)
  have c: "map_option broker_min_stop_price (startup_1 fs t0 True True (Some info))
       = Some (init_broker_min_stop_price info)"
    by (simp add: startup_1_def Let_def)
  have d: "init_broker_min_stop_price info =
       (if real_of_int (trade_stops_level info) * point info \<le> 0 then 0.0005
        else real_of_int (trade_stops_level info) * point info)"
    by (simp add: init_broker_min_stop_price_def Let_def MIN_STOP_DEFAULT_def)
  have f: "broker_min_stop_price (fst (main_1 E s)) = broker_min_stop_price s"
    by (simp add: main_1_def broker_min_stop_price_main_loop_1)
  from a b c d f show ?thesis
    by (simp add: effective_stop_1_eq_max broker_min_stop_price_iteration_1)
qed

text \<open>The theorem at an iteration that sends a buy order (no tick arrives, the window
  holds 100 to 129, the minimum is the default), and at a broker that reports a stop
  level of 0 and one that reports 50 points of 0.01.\<close>

theorem policy_A_stop_distance_witness:
  "submitted_1 quiet_env 1 (full_state_1 (rising_window 30))
     = [request_1 SYMBOL_1 LOT_SIZE ''BUY'' 129 (max (2.0 * sqrt (np_var (rising_window 30))) 0.0005)]
   \<and> symmetric_stops
        (request_1 SYMBOL_1 LOT_SIZE ''BUY'' 129 (max (2.0 * sqrt (np_var (rising_window 30))) 0.0005))
        (max (2.0 * sqrt (np_var (rising_window 30))) 0.0005)
   \<and> 0.0005 \<le> effective_stop_1 (full_state_1 (rising_window 30))
   \<and> init_broker_min_stop_price \<lparr>trade_stops_level = 0, point = 0.01\<rparr> = 0.0005
   \<and> init_broker_min_stop_price \<lparr>trade_stops_level = 50, point = 0.01\<rparr> = 0.5"
proof -
  have u1: "update_1 quiet_env (full_state_1 (rising_window 30)) = full_state_1 (rising_window 30)"
    by (rule update_1_no_ticks) (simp add: fetch_quiet_env)
  have b1: "tick_buffer_1 (full_state_1 (rising_window 30)) = rising_window 30"
    "broker_min_stop_price (full_state_1 (rising_window 30)) = 0.0005"
    by (simp_all add: full_state_1_def MIN_STOP_DEFAULT_def)
  have e1: "effective_stop_1 (full_state_1 (rising_window 30))
      = max (2.0 * sqrt (np_var (rising_window 30))) 0.0005"
    by (simp add: effective_stop_1_eq_max b1)
  show ?thesis
    using policy_A_stop_distance [of "full_state_1 (rising_window 30)"
        "\<lparr>trade_stops_level = 0, point = 0.01\<rparr>" Map.empty 0 quiet_env 1 "\<lambda>k. quiet_env"]
      policy_A_stop_distance [of "full_state_1 (rising_window 30)"
        "\<lparr>trade_stops_level = 50, point = 0.01\<rparr>" Map.empty 0 quiet_env 1 "\<lambda>k. quiet_env"]
    by (simp add: u1 b1 e1 submitted_1_quiet_rising)
qed

subsection \<open>C4: the stop distance of \<open>HFT_2.py\<close>\<close>

text \<open>
  Claim C4. In \<open>HFT_2.py\<close> the stop distance of every order is the greater of the
  variance of the window and 30, so it is never below 30. The variance is the population
  variance of the window (the mean of the squared deviations from the mean), not its
  square root.
\<close>

theorem policy_B_stop_distance:
  "effective_variance_2 v = max v 30.0
   \<and> 30.0 \<le> effective_variance_2 v
   \<and> list_all (\<lambda>r. symmetric_stops r (max (np_var (tick_buffer_2 (update_2 e s))) 30.0))
       (submitted_2 e n s)
   \<and> np_var w = (\<Sum>x\<leftarrow>w. (x - sum_list w / real (length w))\<^sup>2) / real (length w)"
proof -
  have a: "list_all (\<lambda>r. symmetric_stops r (effective_variance_2 (np_var (tick_buffer_2 (update_2 e s)))))
        (submitted_2 e n s)"
    by (simp add: submitted_2_eq symmetric_stops_request_2 split: option.splits)
  from a show ?thesis
    by (simp add: effective_variance_2_eq_max np_var_def np_mean_def)
qed

text \<open>The theorem at an iteration that sends a buy order (no tick arrives, the window
  holds 100 to 129), and at the variances 0 and 45.\<close>

theorem policy_B_stop_distance_witness:
  "submitted_2 quiet_env 1 (full_state_2 (rising_window 30))
     = [request_2 SYMBOL_2 LOT_SIZE ''BUY'' 129 (np_var (rising_window 30))]
   \<and> symmetric_stops (request_2 SYMBOL_2 LOT_SIZE ''BUY'' 129 (np_var (rising_window 30)))
        (max (np_var (rising_window 30)) 30.0)
   \<and> effective_variance_2 0 = 30.0 \<and> effective_variance_2 45 = 45"
proof -
  have u2: "update_2 quiet_env (full_state_2 (rising_window 30)) = full_state_2 (rising_window 30)"
    by (rule update_2_no_ticks) (simp add: fetch_quiet_env)
  have b2: "tick_buffer_2 (full_state_2 (rising_window 30)) = rising_window 30"
    by (simp add: full_state_2_def)
  show ?thesis
    using policy_B_stop_distance [of 0 quiet_env "full_state_2 (rising_window 30)" 1 "[]"]
      policy_B_stop_distance [of 45 quiet_env "full_state_2 (rising_window 30)" 1 "[]"]
    by (simp add: u2 b2 submitted_2_quiet_rising)
qed

subsection \<open>C5: the stop distance of \<open>remove30_use_RawCalculatedVar.py\<close>\<close>




subsection \<open>C6: the price window\<close>

text \<open>
  Claim C6. A push into a window of capacity \<open>n\<close> keeps its length at most \<open>n\<close>, puts
  the new price last, and when the window is full removes the oldest price. Pushing
  prices into an empty window leaves the most recent \<open>n\<close> of them in arrival order; after
  \<open>n + 1\<close> distinct prices the first one pushed is gone and the other \<open>n\<close> remain in
  order. Every variant pushes the price of each tick into its buffer in this way.
\<close>

theorem price_window_fifo:
  "(length dq \<le> n \<longrightarrow> length (deque_append n dq x) \<le> n)
   \<and> (length dq < n \<longrightarrow> deque_append n dq x = dq @ [x])
   \<and> (length dq = n \<longrightarrow> deque_append n dq x = tl (dq @ [x]))
   \<and> foldl (deque_append n) [] ps = drop (length ps - n) ps
   \<and> (length ps = n + 1 \<and> distinct ps \<longrightarrow>
        foldl (deque_append n) [] ps = tl ps \<and> hd ps \<notin> set (foldl (deque_append n) [] ps))
   \<and> tick_buffer_1 (foldl process_tick_1 s1 ts)
        = foldl (deque_append TICK_BUFFER_SIZE_1) (tick_buffer_1 s1) (map tick_price ts)
   \<and> tick_buffer_2 (foldl process_tick_2 s2 ts)
        = foldl (deque_append TICK_BUFFER_SIZE_2) (tick_buffer_2 s2) (map tick_price ts)
   \<and> tick_buffer_3 (foldl process_tick_3 s3 ts)
        = foldl (deque_append TICK_BUFFER_SIZE_3) (tick_buffer_3 s3) (map tick_price ts)"
proof -
  have a: "length dq \<le> n \<longrightarrow> length (deque_append n dq x) \<le> n"
    by (simp add: length_deque_append_le)
  have b: "length dq < n \<longrightarrow> deque_append n dq x = dq @ [x]"
    by (simp add: deque_append_def Let_def)
  have c: "length dq = n \<longrightarrow> deque_append n dq x = tl (dq @ [x])"
    by (simp add: deque_append_def Let_def)
  have d: "foldl (deque_append n) [] ps = drop (length ps - n) ps"
    using foldl_deque_append [of "[]" n ps] by simp
  have e: "length ps = n + 1 \<and> distinct ps \<longrightarrow>
        foldl (deque_append n) [] ps = tl ps \<and> hd ps \<notin> set (foldl (deque_append n) [] ps)"
  proof (intro impI, elim conjE)
    assume len: "length ps = n + 1" and dist: "distinct ps"
    then obtain p rest where ps: "ps = p # rest" by (cases ps) auto
    with len d have "foldl (deque_append n) [] ps = tl ps" by simp
    moreover from ps dist have "hd ps \<notin> set (tl ps)" by simp
    ultimately show "foldl (deque_append n) [] ps = tl ps
        \<and> hd ps \<notin> set (foldl (deque_append n) [] ps)"
      by simp
  qed
  from a b c d e show ?thesis
    by (simp only: foldl_process_tick_1_fields foldl_process_tick_2_fields
        foldl_process_tick_3_fields simp_thms)
qed

text \<open>The theorem at capacity 3: 4 is pushed into the full window 1, 2, 3; 3 is pushed
  into the window 1, 2; and 1, 2, 3, 4 are pushed into the empty window.\<close>

theorem price_window_fifo_witness:
  "length (deque_append 3 [1, 2, 3 :: real] 4) \<le> 3
   \<and> deque_append 3 [1, 2 :: real] 3 = [1, 2, 3]
   \<and> deque_append 3 [1, 2, 3 :: real] 4 = [2, 3, 4]
   \<and> foldl (deque_append 3) [] [1, 2, 3, 4 :: real] = [2, 3, 4]
   \<and> (1 :: real) \<notin> set (foldl (deque_append 3) [] [1, 2, 3, 4])"
  using price_window_fifo [of "[1, 2, 3 :: real]" 3 4 "[1, 2, 3, 4 :: real]"]
    price_window_fifo [of "[1, 2 :: real]" 3 3 "[1, 2, 3, 4 :: real]"]
  by (simp add: deque_append_def)

subsection \<open>C7: an iteration whose fetch returns no tick\<close>

text \<open>
  Claim C7, as the code has it. In an iteration whose fetch returns no tick (an empty
  sequence, or \<open>None\<close>), the window is left as it was and nothing is logged for a tick.
  The order attempt is gated by the window alone: when the window is not full the
  iteration changes nothing and submits no order, and when the window is already full
  the decision is evaluated on its unchanged contents as in any other iteration.
\<close>

theorem empty_fetch_iteration:
  "(fetch_new_ticks e1 SYMBOL_1 (latest_tick_time_1 s1) \<in> {None, Some []} \<longrightarrow>
      update_1 e1 s1 = s1
      \<and> iteration_1 e1 n s1 =
          (if length (tick_buffer_1 s1) = TICK_BUFFER_SIZE_1 then order_attempt_1 e1 n s1
           else (s1, None))
      \<and> (length (tick_buffer_1 s1) \<noteq> TICK_BUFFER_SIZE_1 \<longrightarrow> submitted_1 e1 n s1 = []))
   \<and> (fetch_new_ticks e2 SYMBOL_2 (latest_tick_time_2 s2) \<in> {None, Some []} \<longrightarrow>
      update_2 e2 s2 = s2
      \<and> iteration_2 e2 n s2 =
          (if length (tick_buffer_2 s2) = TICK_BUFFER_SIZE_2 then order_attempt_2 e2 n s2 else s2)
      \<and> (length (tick_buffer_2 s2) \<noteq> TICK_BUFFER_SIZE_2 \<longrightarrow> submitted_2 e2 n s2 = []))
   \<and> (fetch_new_ticks e3 SYMBOL_3 (latest_tick_time_3 s3) \<in> {None, Some []} \<longrightarrow>
      update_3 e3 s3 = s3
      \<and> iteration_3 e3 n s3 =
          (if length (tick_buffer_3 s3) = TICK_BUFFER_SIZE_3 then order_attempt_3 e3 n s3 else s3)
      \<and> (length (tick_buffer_3 s3) \<noteq> TICK_BUFFER_SIZE_3 \<longrightarrow> submitted_3 e3 n s3 = []))"
proof (intro conjI impI)
  assume f: "fetch_new_ticks e1 SYMBOL_1 (latest_tick_time_1 s1) \<in> {None, Some []}"
  show u: "update_1 e1 s1 = s1" by (rule update_1_no_ticks [OF f])
  show "iteration_1 e1 n s1 =
          (if length (tick_buffer_1 s1) = TICK_BUFFER_SIZE_1 then order_attempt_1 e1 n s1
           else (s1, None))"
    by (simp add: iteration_1_def u)
  assume "length (tick_buffer_1 s1) \<noteq> TICK_BUFFER_SIZE_1"
  then show "submitted_1 e1 n s1 = []" by (simp add: submitted_1_eq u)
next
  assume f: "fetch_new_ticks e2 SYMBOL_2 (latest_tick_time_2 s2) \<in> {None, Some []}"
  show u: "update_2 e2 s2 = s2" by (rule update_2_no_ticks [OF f])
  show "iteration_2 e2 n s2 =
          (if length (tick_buffer_2 s2) = TICK_BUFFER_SIZE_2 then order_attempt_2 e2 n s2 else s2)"
    by (simp add: iteration_2_def u)
  assume "length (tick_buffer_2 s2) \<noteq> TICK_BUFFER_SIZE_2"
  then show "submitted_2 e2 n s2 = []" by (simp add: submitted_2_eq u)
next
  assume f: "fetch_new_ticks e3 SYMBOL_3 (latest_tick_time_3 s3) \<in> {None, Some []}"
  show u: "update_3 e3 s3 = s3" by (rule update_3_no_ticks [OF f])
  show "iteration_3 e3 n s3 =
          (if length (tick_buffer_3 s3) = TICK_BUFFER_SIZE_3 then order_attempt_3 e3 n s3 else s3)"
    by (simp add: iteration_3_def u)
  assume "length (tick_buffer_3 s3) \<noteq> TICK_BUFFER_SIZE_3"
  then show "submitted_3 e3 n s3 = []" by (simp add: submitted_3_eq u)
qed

text \<open>The theorem in a world without ticks, at a window of two prices (nothing
  happens) and at a full window (the order attempt runs).\<close>

theorem empty_fetch_iteration_witness:
  "fetch_new_ticks quiet_env SYMBOL_1 (latest_tick_time_1 (full_state_1 [100, 101])) = Some []
   \<and> iteration_1 quiet_env 1 (full_state_1 [100, 101]) = (full_state_1 [100, 101], None)
   \<and> submitted_1 quiet_env 1 (full_state_1 [100, 101]) = []
   \<and> fetch_new_ticks quiet_env SYMBOL_2 (latest_tick_time_2 (full_state_2 [100, 101])) = Some []
   \<and> iteration_2 quiet_env 1 (full_state_2 [100, 101]) = full_state_2 [100, 101]
   \<and> submitted_2 quiet_env 1 (full_state_2 [100, 101]) = []
   \<and> iteration_2 quiet_env 1 (full_state_2 (rising_window 30))
       = order_attempt_2 quiet_env 1 (full_state_2 (rising_window 30))
   \<and> fetch_new_ticks quiet_env SYMBOL_3 (latest_tick_time_3 (full_state_3 [100, 101])) = Some []
   \<and> iteration_3 quiet_env 1 (full_state_3 [100, 101]) = full_state_3 [100, 101]
   \<and> submitted_3 quiet_env 1 (full_state_3 [100, 101]) = []"
proof -
  have b: "tick_buffer_1 (full_state_1 [100, 101]) = [100, 101]"
    "tick_buffer_2 (full_state_2 [100, 101]) = [100, 101]"
    "tick_buffer_3 (full_state_3 [100, 101]) = [100, 101]"
    "tick_buffer_2 (full_state_2 (rising_window 30)) = rising_window 30"
    by (simp_all add: full_state_1_def full_state_2_def full_state_3_def)
  show ?thesis
    using empty_fetch_iteration [of quiet_env "full_state_1 [100, 101]" 1
        quiet_env "full_state_2 [100, 101]" quiet_env "full_state_3 [100, 101]"]
      empty_fetch_iteration [of quiet_env "full_state_1 [100, 101]" 1
        quiet_env "full_state_2 (rising_window 30)" quiet_env "full_state_3 [100, 101]"]
    by (simp add: fetch_quiet_env b length_rising_window TICK_BUFFER_SIZE_1_def
        TICK_BUFFER_SIZE_2_def TICK_BUFFER_SIZE_3_def)
qed

text \<open>
  The claim as the specification words it (with no tick fetched, no decision is evaluated
  and no order is submitted) fails: the fetch returns no tick, the window already holds
  100 to 129, and \<open>HFT_1.py\<close> and \<open>HFT_2.py\<close> each submit a buy order at 129.
\<close>

theorem empty_fetch_still_trades:
  "fetch_new_ticks quiet_env SYMBOL_1 (latest_tick_time_1 (full_state_1 (rising_window 30))) = Some []
   \<and> submitted_1 quiet_env 1 (full_state_1 (rising_window 30))
       = [request_1 SYMBOL_1 LOT_SIZE ''BUY'' 129 (effective_stop_1 (full_state_1 (rising_window 30)))]
   \<and> fetch_new_ticks quiet_env SYMBOL_2 (latest_tick_time_2 (full_state_2 (rising_window 30))) = Some []
   \<and> submitted_2 quiet_env 1 (full_state_2 (rising_window 30))
       = [request_2 SYMBOL_2 LOT_SIZE ''BUY'' 129 (np_var (rising_window 30))]"
  by (simp add: fetch_quiet_env submitted_1_quiet_rising submitted_2_quiet_rising)

subsection \<open>C8: a window of equal prices\<close>



subsection \<open>C9: the stored previous slope\<close>

text \<open>
  Claim C9. The decision of an iteration does not depend on \<open>previous_slope\<close>. In
  \<open>HFT_1.py\<close> the variable is never assigned: an iteration started with another stored
  value does the same and leaves that value in place. In \<open>HFT_2.py\<close> the variable is
  assigned in the order attempt and never read: an iteration started with another stored
  value ends in the same state when the window is full, and in a state that differs in
  the stored value alone otherwise. In both, the requests submitted and the files
  written (the logged trend among them) are the same.
\<close>

theorem previous_slope_not_read:
  "iteration_1 e1 n (s1\<lparr>previous_slope_1 := a\<rparr>)
     = (case iteration_1 e1 n s1 of (s', err) \<Rightarrow> (s'\<lparr>previous_slope_1 := a\<rparr>, err))
   \<and> submitted_1 e1 n (s1\<lparr>previous_slope_1 := a\<rparr>) = submitted_1 e1 n s1
   \<and> files_1 (fst (iteration_1 e1 n (s1\<lparr>previous_slope_1 := a\<rparr>))) = files_1 (fst (iteration_1 e1 n s1))
   \<and> previous_slope_1 (fst (iteration_1 e1 n s1)) = previous_slope_1 s1
   \<and> iteration_2 e2 n (s2\<lparr>previous_slope_2 := a\<rparr>)
     = (if length (tick_buffer_2 (update_2 e2 s2)) = TICK_BUFFER_SIZE_2 then iteration_2 e2 n s2
        else (iteration_2 e2 n s2)\<lparr>previous_slope_2 := a\<rparr>)
   \<and> submitted_2 e2 n (s2\<lparr>previous_slope_2 := a\<rparr>) = submitted_2 e2 n s2
   \<and> files_2 (iteration_2 e2 n (s2\<lparr>previous_slope_2 := a\<rparr>)) = files_2 (iteration_2 e2 n s2)
   \<and> tick_buffer_2 (iteration_2 e2 n (s2\<lparr>previous_slope_2 := a\<rparr>)) = tick_buffer_2 (iteration_2 e2 n s2)"
proof -
  have i1: "iteration_1 e1 n (s1\<lparr>previous_slope_1 := a\<rparr>)
     = (case iteration_1 e1 n s1 of (s', err) \<Rightarrow> (s'\<lparr>previous_slope_1 := a\<rparr>, err))"
    by (rule iteration_1_previous_slope)
  have i2: "iteration_2 e2 n (s2\<lparr>previous_slope_2 := a\<rparr>)
     = (if length (tick_buffer_2 (update_2 e2 s2)) = TICK_BUFFER_SIZE_2 then iteration_2 e2 n s2
        else (iteration_2 e2 n s2)\<lparr>previous_slope_2 := a\<rparr>)"
    by (rule iteration_2_previous_slope)
  have p1: "previous_slope_1 (fst (iteration_1 e1 n s1)) = previous_slope_1 s1"
    by (auto simp: iteration_1_def Let_def order_attempt_1_def update_1_def
        foldl_process_tick_1_fields split: option.splits)
  have a1: "submitted_1 e1 n (s1\<lparr>previous_slope_1 := a\<rparr>) = submitted_1 e1 n s1"
    by (simp add: submitted_1_def i1 split_def)
  have f1: "files_1 (fst (iteration_1 e1 n (s1\<lparr>previous_slope_1 := a\<rparr>))) = files_1 (fst (iteration_1 e1 n s1))"
    by (simp add: i1 split_def)
  have a2: "submitted_2 e2 n (s2\<lparr>previous_slope_2 := a\<rparr>) = submitted_2 e2 n s2"
    by (simp add: submitted_2_def i2)
  have f2: "files_2 (iteration_2 e2 n (s2\<lparr>previous_slope_2 := a\<rparr>)) = files_2 (iteration_2 e2 n s2)"
    by (simp add: i2)
  have b2: "tick_buffer_2 (iteration_2 e2 n (s2\<lparr>previous_slope_2 := a\<rparr>)) = tick_buffer_2 (iteration_2 e2 n s2)"
    by (simp add: i2)
  show ?thesis
    by (intro conjI i1 i2 p1 a1 f1 a2 f2 b2)
qed

subsection \<open>C10: the CSV files\<close>

text \<open>
  Claim C10, as the code has it. In \<open>HFT_2.py\<close> and
  \<open>remove30_use_RawCalculatedVar.py\<close> each preparation routine writes the header row
  only when its file does not exist, and leaves the disk as it is otherwise, so startup
  keeps what every file held. In \<open>HFT_1.py\<close> the two preparation routines open their
  file for writing whatever it holds, and leave it with the header row alone. In every
  variant each later write adds one row after the rows of the file: an iteration, and
  the whole loop, keep every file with its old rows first.
\<close>

theorem csv_logs_append_only:
  "prepare_raw_tick_csv_2 fs
     = (if fs RAW_TICK_CSV = None then fs(RAW_TICK_CSV \<mapsto> [raw_tick_header]) else fs)
   \<and> prepare_tick_csv_2 fs = (if fs TICK_CSV = None then fs(TICK_CSV \<mapsto> [tick_header]) else fs)
   \<and> prepare_order_csv_2 fs = (if fs ORDER_CSV = None then fs(ORDER_CSV \<mapsto> [order_header]) else fs)
   \<and> prepare_raw_tick_csv_3 fs
     = (if fs RAW_TICK_CSV = None then fs(RAW_TICK_CSV \<mapsto> [raw_tick_header]) else fs)
   \<and> prepare_tick_csv_3 fs = (if fs TICK_CSV = None then fs(TICK_CSV \<mapsto> [tick_header]) else fs)
   \<and> prepare_order_csv_3 fs = (if fs ORDER_CSV = None then fs(ORDER_CSV \<mapsto> [order_header]) else fs)
   \<and> appended fs (initialize_csvs_2 fs)
   \<and> appended fs (initialize_csvs_3 fs)
   \<and> prepare_tick_csv_1 fs = fs(TICK_CSV_FILE_1 \<mapsto>
        [strs [''date'', ''time'', ''symbol'', ''price'', ''variance'', ''slope'', ''trend'']])
   \<and> prepare_order_csv_1 fs = fs(ORDER_CSV_FILE_1 \<mapsto> [order_header])
   \<and> appended fs (open_a_writerow fs f r)
   \<and> open_a_writerow fs f r f = Some (rows_of fs f @ [r])
   \<and> appended (files_1 s1) (files_1 (fst (iteration_1 e1 n s1)))
   \<and> appended (files_2 s2) (files_2 (iteration_2 e2 n s2))
   \<and> appended (files_3 s3) (files_3 (iteration_3 e3 n s3))
   \<and> appended (files_1 s1) (files_1 (fst (main_1 E1 s1)))
   \<and> appended (files_2 s2) (files_2 (main_2 E2 s2))
   \<and> appended (files_3 s3) (files_3 (main_3 E3 s3))"
  by (simp add: prepare_raw_tick_csv_2_def prepare_tick_csv_2_def prepare_order_csv_2_def
      prepare_raw_tick_csv_3_def prepare_tick_csv_3_def prepare_order_csv_3_def
      prepare_tick_csv_1_def prepare_order_csv_1_def path_exists_def open_w_writerow_def
      appended_initialize_csvs_2 appended_initialize_csvs_3 appended_open_a
      open_a_writerow_apply appended_iteration_1 appended_iteration_2 appended_iteration_3
      main_1_def main_2_def main_3_def appended_main_loop_1 appended_main_loop_2
      appended_main_loop_3)

text \<open>The theorem on a disk where \<open>tick_data.csv\<close> holds its header and one row of
  data and the other files do not exist.\<close>

theorem csv_logs_append_only_witness:
  "old_files TICK_CSV = Some
     [strs [''date'', ''time'', ''symbol'', ''price'', ''variance'', ''slope'', ''trend''],
      strs [''2025-01-01'', ''00:00:00.000'', ''BTCUSD'', ''100.00000'', ''N/A'', ''N/A'', ''N/A'']]
   \<and> prepare_tick_csv_2 old_files = old_files
   \<and> prepare_tick_csv_3 old_files = old_files
   \<and> prepare_order_csv_2 old_files ORDER_CSV = Some [order_header]
   \<and> initialize_csvs_2 old_files TICK_CSV = old_files TICK_CSV
   \<and> open_a_writerow old_files TICK_CSV (strs [''x'']) TICK_CSV = Some
     [strs [''date'', ''time'', ''symbol'', ''price'', ''variance'', ''slope'', ''trend''],
      strs [''2025-01-01'', ''00:00:00.000'', ''BTCUSD'', ''100.00000'', ''N/A'', ''N/A'', ''N/A''],
      strs [''x'']]
   \<and> appended old_files (initialize_csvs_2 old_files)"
proof -
  have o: "old_files TICK_CSV = Some
     [strs [''date'', ''time'', ''symbol'', ''price'', ''variance'', ''slope'', ''trend''],
      strs [''2025-01-01'', ''00:00:00.000'', ''BTCUSD'', ''100.00000'', ''N/A'', ''N/A'', ''N/A'']]"
    "old_files ORDER_CSV = None" "old_files RAW_TICK_CSV = None"
    by (simp_all add: old_files_def TICK_CSV_def TICK_CSV_FILE_1_def ORDER_CSV_def RAW_TICK_CSV_def)
  have i: "initialize_csvs_2 old_files TICK_CSV = old_files TICK_CSV"
    by (simp add: initialize_csvs_2_def prepare_raw_tick_csv_2_def prepare_tick_csv_2_def
        prepare_order_csv_2_def path_exists_def open_w_writerow_def o file_names_distinct)
  show ?thesis
    using csv_logs_append_only [of old_files TICK_CSV "strs [''x'']"]
    by (simp add: o i rows_of_def)
qed

text \<open>
  The claim as the specification words it (in every variant the header is written only
  when the file does not exist, and nothing is truncated) fails in \<open>HFT_1.py\<close>: on that
  disk \<open>prepare_tick_csv\<close> leaves \<open>tick_data.csv\<close> with the header row alone.
\<close>

theorem prepare_tick_csv_1_truncates:
  "old_files TICK_CSV_FILE_1 = Some
     [strs [''date'', ''time'', ''symbol'', ''price'', ''variance'', ''slope'', ''trend''],
      strs [''2025-01-01'', ''00:00:00.000'', ''BTCUSD'', ''100.00000'', ''N/A'', ''N/A'', ''N/A'']]
   \<and> prepare_tick_csv_1 old_files TICK_CSV_FILE_1 = Some
     [strs [''date'', ''time'', ''symbol'', ''price'', ''variance'', ''slope'', ''trend'']]
   \<and> \<not> appended old_files (prepare_tick_csv_1 old_files)"
proof -
  have o: "old_files TICK_CSV_FILE_1 = Some
     [strs [''date'', ''time'', ''symbol'', ''price'', ''variance'', ''slope'', ''trend''],
      strs [''2025-01-01'', ''00:00:00.000'', ''BTCUSD'', ''100.00000'', ''N/A'', ''N/A'', ''N/A'']]"
    by (simp add: old_files_def)
  have p: "prepare_tick_csv_1 old_files TICK_CSV_FILE_1 = Some
     [strs [''date'', ''time'', ''symbol'', ''price'', ''variance'', ''slope'', ''trend'']]"
    by (simp add: prepare_tick_csv_1_def open_w_writerow_def)
  have "\<not> appended old_files (prepare_tick_csv_1 old_files)"
  proof
    assume "appended old_files (prepare_tick_csv_1 old_files)"
    with o obtain more where "prepare_tick_csv_1 old_files TICK_CSV_FILE_1 = Some
       ([strs [''date'', ''time'', ''symbol'', ''price'', ''variance'', ''slope'', ''trend''],
      strs [''2025-01-01'', ''00:00:00.000'', ''BTCUSD'', ''100.00000'', ''N/A'', ''N/A'', ''N/A'']] @ more)"
      unfolding appended_def by blast
    with p show False by simp
  qed
  with o p show ?thesis by simp
qed

end
